theory Spec2Isabelle
  imports Main "HOL-Library.Word" "HOL-Library.Multiset" "HOL-Library.Signed_Division" "HOL-Library.AList"
begin

section \<open>Machine integers\<close>

text \<open>
  Go's \<open>int32\<close> and \<open>int64\<close> are words; \<open>+\<close> and \<open>-\<close> wrap around, and the
  comparisons of the source are the signed ones (\<open>word_sless\<close>, \<open>word_sle\<close>).
\<close>

type_synonym int32 = "32 word"
type_synonym int64 = "64 word"

section \<open>Strings\<close>

text \<open>
  Go's \<open>strings.Index s substr\<close>: the index of the first occurrence of \<open>substr\<close> in
  \<open>s\<close>, or \<open>-1\<close> when there is none.
\<close>

fun strings_Index :: "string \<Rightarrow> string \<Rightarrow> int" where
  "strings_Index [] substr = (if substr = [] then 0 else - 1)"
| "strings_Index (c # cs) substr =
     (if take (length substr) (c # cs) = substr then 0
      else (let i = strings_Index cs substr in if i = - 1 then - 1 else i + 1))"

section \<open>Gateway route table (package routes)\<close>

record CompiledRouteBackend =
  AgentName :: string
  Namespace :: string
  Endpoint :: string
  Weight :: int32
  Ready :: bool

text \<open>
  \<open>Headers\<close> is a Go \<open>map[string]string\<close>; the list holds its entries. The only
  loop over it is a conjunction over all entries, so their order does not matter.
\<close>

record CompiledRouteMatch =
  Agent :: string
  IntentRegex :: string
  TenantID :: string
  Headers :: "(string \<times> string) list"

record CompiledRouteRule =
  Name :: string
  Priority :: int32
  Match :: CompiledRouteMatch
  Backends :: "CompiledRouteBackend list"

record RouteDefaultConfig =
  Backend :: "CompiledRouteBackend option"
  MaxConcurrent :: int32
  MaxQueueSize :: int32
  QueueTimeoutMs :: int64
  RequestTimeoutMs :: int64
  RejectUnmatched :: bool

record RouteConfig =
  Rules :: "CompiledRouteRule list"
  Defaults :: "RouteDefaultConfig option"

text \<open>
  \<open>'re\<close> is the type of compiled regular expressions (\<open>*regexp.Regexp\<close>). The
  standard library's \<open>regexp.Compile\<close> and \<open>(*Regexp).MatchString\<close> are parameters
  of the functions that call them, as is \<open>json.Unmarshal\<close>.
\<close>

record 're compiledRule =
  rule :: CompiledRouteRule
  intentRegex :: "'re option"

record 're Table =
  config :: "RouteConfig option"
  compiled :: "'re compiledRule list"

datatype load_error = UnmarshalError | RegexpCompileError string

definition NewTable :: "'re Table" where
  "NewTable = \<lparr>config = None, compiled = []\<rparr>"

text \<open>The pre-compilation loop of \<open>LoadFromJSON\<close>; \<open>acc\<close> is the slice \<open>compiled\<close>.\<close>

fun precompile :: "(string \<Rightarrow> 're option) \<Rightarrow> CompiledRouteRule list \<Rightarrow> 're compiledRule list
    \<Rightarrow> load_error + 're compiledRule list" where
  "precompile regexp_Compile [] acc = Inr acc"
| "precompile regexp_Compile (r # rs) acc =
     (if IntentRegex (Match r) \<noteq> [] then
        (case regexp_Compile (IntentRegex (Match r)) of
           None \<Rightarrow> Inl (RegexpCompileError (IntentRegex (Match r)))
         | Some re \<Rightarrow> precompile regexp_Compile rs (acc @ [\<lparr>rule = r, intentRegex = Some re\<rparr>]))
      else precompile regexp_Compile rs (acc @ [\<lparr>rule = r, intentRegex = None\<rparr>]))"

text \<open>
  \<open>LoadFromJSON\<close> returns the error (\<open>None\<close> is Go's \<open>nil\<close>) and the table as it
  is after the call.
\<close>

definition LoadFromJSON :: "(string \<Rightarrow> RouteConfig option) \<Rightarrow> (string \<Rightarrow> 're option)
    \<Rightarrow> 're Table \<Rightarrow> string \<Rightarrow> load_error option \<times> 're Table" where
  "LoadFromJSON json_Unmarshal regexp_Compile t data =
     (case json_Unmarshal data of
        None \<Rightarrow> (Some UnmarshalError, t)
      | Some cfg \<Rightarrow>
          (case precompile regexp_Compile (Rules cfg) [] of
             Inl e \<Rightarrow> (Some e, t)
           | Inr cs \<Rightarrow> (None, t\<lparr>config := Some cfg, compiled := cs\<rparr>)))"

record MatchRequest =
  req_Agent :: string
  req_Intent :: string
  req_TenantID :: string
  req_Headers :: "(string \<times> string) list"

record MatchResult =
  RuleName :: string
  res_Backends :: "CompiledRouteBackend list"

fun filterReadyBackends :: "CompiledRouteBackend list \<Rightarrow> CompiledRouteBackend list" where
  "filterReadyBackends [] = []"
| "filterReadyBackends (b # bs) =
     (if Ready b then b # filterReadyBackends bs else filterReadyBackends bs)"

text \<open>Reading a Go map at a missing key gives the empty string.\<close>

definition header_get :: "(string \<times> string) list \<Rightarrow> string \<Rightarrow> string" where
  "header_get hs k = (case map_of hs k of None \<Rightarrow> [] | Some v \<Rightarrow> v)"

fun headers_loop :: "(string \<times> string) list \<Rightarrow> (string \<times> string) list \<Rightarrow> bool" where
  "headers_loop [] reqh = True"
| "headers_loop ((k, v) # kvs) reqh =
     (if header_get reqh k \<noteq> v then False else headers_loop kvs reqh)"

definition ruleMatches :: "('re \<Rightarrow> string \<Rightarrow> bool) \<Rightarrow> 're compiledRule \<Rightarrow> MatchRequest \<Rightarrow> bool" where
  "ruleMatches MatchString cr req =
     (let m = Match (rule cr) in
      if Agent m \<noteq> [] \<and> Agent m \<noteq> req_Agent req then False
      else if (case intentRegex cr of None \<Rightarrow> False
               | Some re \<Rightarrow> \<not> MatchString re (req_Intent req)) then False
      else if TenantID m \<noteq> [] \<and> TenantID m \<noteq> req_TenantID req then False
      else headers_loop (Headers m) (req_Headers req))"

text \<open>The first loop of \<open>Match\<close>: explicit agent match.\<close>

fun agent_loop :: "'re compiledRule list \<Rightarrow> MatchRequest \<Rightarrow> MatchResult option" where
  "agent_loop [] req = None"
| "agent_loop (cr # crs) req =
     (if Agent (Match (rule cr)) = req_Agent req then
        (let readyBackends = filterReadyBackends (Backends (rule cr)) in
         if length readyBackends > 0
         then Some \<lparr>RuleName = Name (rule cr), res_Backends = readyBackends\<rparr>
         else agent_loop crs req)
      else agent_loop crs req)"

text \<open>The second loop of \<open>Match\<close>: the other rules, in stored order.\<close>

fun rules_loop :: "('re \<Rightarrow> string \<Rightarrow> bool) \<Rightarrow> 're compiledRule list \<Rightarrow> MatchRequest
    \<Rightarrow> MatchResult option" where
  "rules_loop MatchString [] req = None"
| "rules_loop MatchString (cr # crs) req =
     (if ruleMatches MatchString cr req then
        (let readyBackends = filterReadyBackends (Backends (rule cr)) in
         if length readyBackends > 0
         then Some \<lparr>RuleName = Name (rule cr), res_Backends = readyBackends\<rparr>
         else rules_loop MatchString crs req)
      else rules_loop MatchString crs req)"

definition default_fallback :: "RouteConfig \<Rightarrow> MatchResult option" where
  "default_fallback cfg =
     (case Defaults cfg of
        None \<Rightarrow> None
      | Some d \<Rightarrow>
          (case Backend d of
             None \<Rightarrow> None
           | Some b \<Rightarrow>
               if Ready b then Some \<lparr>RuleName = ''_default'', res_Backends = [b]\<rparr> else None))"

definition Table_Match :: "('re \<Rightarrow> string \<Rightarrow> bool) \<Rightarrow> 're Table \<Rightarrow> MatchRequest
    \<Rightarrow> MatchResult option" where
  "Table_Match MatchString t req =
     (case config t of
        None \<Rightarrow> None
      | Some cfg \<Rightarrow>
          (case (if req_Agent req \<noteq> [] then agent_loop (compiled t) req else None) of
             Some r \<Rightarrow> Some r
           | None \<Rightarrow>
               (case rules_loop MatchString (compiled t) req of
                  Some r \<Rightarrow> Some r
                | None \<Rightarrow> default_fallback cfg)))"

definition GetDefaults :: "'re Table \<Rightarrow> RouteDefaultConfig option" where
  "GetDefaults t = (case config t of None \<Rightarrow> None | Some cfg \<Rightarrow> Defaults cfg)"

text \<open>
  The routing step of \<open>handleInvoke\<close> (package api): either the request goes on with
  the matched rule, or it is rejected with an HTTP status and a message.
\<close>

datatype route_outcome = Routed MatchResult | Rejected nat string

definition StatusBadRequest :: nat where "StatusBadRequest = 400"
definition StatusNotFound :: nat where "StatusNotFound = 404"

definition no_match_response :: "'re Table \<Rightarrow> route_outcome" where
  "no_match_response t =
     (case GetDefaults t of
        Some d \<Rightarrow>
          if RejectUnmatched d then Rejected StatusBadRequest ''no matching route found''
          else Rejected StatusNotFound ''no available agent for this request''
      | None \<Rightarrow> Rejected StatusNotFound ''no available agent for this request'')"

definition handleInvoke_route :: "('re \<Rightarrow> string \<Rightarrow> bool) \<Rightarrow> 're Table \<Rightarrow> MatchRequest
    \<Rightarrow> route_outcome" where
  "handleInvoke_route MatchString t req =
     (case Table_Match MatchString t req of
        None \<Rightarrow> no_match_response t
      | Some matchResult \<Rightarrow>
          if length (res_Backends matchResult) = 0 then no_match_response t
          else Routed matchResult)"

section \<open>Admission controller (package circuit)\<close>

record Config =
  cfg_MaxConcurrent :: int32
  cfg_MaxQueueSize :: int32
  cfg_QueueTimeout :: int64

text \<open>
  \<open>waitChan\<close> is a buffered channel of empty structs: only the number of tokens in it
  matters. \<open>waitChan_cap\<close> is its capacity, fixed by \<open>New\<close>. The mutex is not part of
  the state: each of the functions below is one critical section.
\<close>

record Breaker =
  b_route :: string
  maxConcurrent :: int32
  maxQueue :: int32
  queueTimeout :: int64
  active :: int32
  waiting :: int32
  waitChan :: nat
  waitChan_cap :: nat

definition Second :: int64 where "Second = 1000000000"

text \<open>\<open>make\<close> panics on a negative capacity: \<open>New\<close> is \<open>None\<close> there.\<close>

definition New :: "string \<Rightarrow> Config \<Rightarrow> Breaker option" where
  "New r cfg =
     (let mc = (if cfg_MaxConcurrent cfg \<le>s 0 then 100 else cfg_MaxConcurrent cfg);
          mq = (if cfg_MaxQueueSize cfg <s 0 then 0 else cfg_MaxQueueSize cfg);
          qt = (if cfg_QueueTimeout cfg \<le>s 0 then 30 * Second else cfg_QueueTimeout cfg)
      in if mc + mq <s 0 then None
         else Some \<lparr>b_route = r, maxConcurrent = mc, maxQueue = mq, queueTimeout = qt,
                     active = 0, waiting = 0, waitChan = 0,
                     waitChan_cap = nat (sint (mc + mq))\<rparr>)"

datatype acquire_error = ErrQueueFull | ErrQueueTimeout | ContextErr

text \<open>
  The first critical section of \<open>Acquire\<close>: it returns at once (admitted, or queue
  full), or the caller is queued and goes on to the \<open>select\<close>.
\<close>

datatype acquire_step = Returned "acquire_error option" Breaker | Queued Breaker

definition Acquire_enter :: "Breaker \<Rightarrow> acquire_step" where
  "Acquire_enter b =
     (if active b <s maxConcurrent b then Returned None (b\<lparr>active := active b + 1\<rparr>)
      else if maxQueue b \<le>s waiting b then Returned (Some ErrQueueFull) b
      else Queued (b\<lparr>waiting := waiting b + 1\<rparr>))"

text \<open>
  The \<open>select\<close> has three cases. Which of them can proceed depends on the context
  (\<open>ctx.Done()\<close> closed), on the timer (\<open>timer.C\<close> has fired) and on the wake
  channel (a token is buffered). Go's \<open>select\<close> picks one of the cases that can
  proceed, with no priority among them, and blocks while none can: the choice is a
  relation.
\<close>

datatype select_case = CtxDone | TimerFired | WakeReceived

record wait_ready =
  ctx_done :: bool
  timer_fired :: bool

definition can_proceed :: "wait_ready \<Rightarrow> Breaker \<Rightarrow> select_case \<Rightarrow> bool" where
  "can_proceed w b c =
     (case c of CtxDone \<Rightarrow> ctx_done w
      | TimerFired \<Rightarrow> timer_fired w
      | WakeReceived \<Rightarrow> 0 < waitChan b)"

text \<open>The body of the chosen case, one critical section each.\<close>

definition Acquire_exit :: "select_case \<Rightarrow> Breaker \<Rightarrow> acquire_error option \<times> Breaker" where
  "Acquire_exit c b =
     (case c of
        CtxDone \<Rightarrow> (Some ContextErr, b\<lparr>waiting := waiting b - 1\<rparr>)
      | TimerFired \<Rightarrow> (Some ErrQueueTimeout, b\<lparr>waiting := waiting b - 1\<rparr>)
      | WakeReceived \<Rightarrow>
          (None, b\<lparr>waiting := waiting b - 1, active := active b + 1, waitChan := waitChan b - 1\<rparr>))"

text \<open>
  \<open>Acquire w b (e, b')\<close>: a call of \<open>Acquire\<close> on the breaker \<open>b\<close>, with no other
  goroutine touching the breaker in between, can return \<open>e\<close> and leave \<open>b'\<close>.
\<close>

inductive Acquire :: "wait_ready \<Rightarrow> Breaker \<Rightarrow> acquire_error option \<times> Breaker \<Rightarrow> bool" where
  immediate: "Acquire_enter b = Returned e b' \<Longrightarrow> Acquire w b (e, b')"
| waited: "Acquire_enter b = Queued b1 \<Longrightarrow> can_proceed w b1 c \<Longrightarrow> Acquire w b (Acquire_exit c b1)"

definition Release :: "Breaker \<Rightarrow> Breaker" where
  "Release b =
     (let b1 = b\<lparr>active := active b - 1\<rparr> in
      if 0 <s waiting b1 \<and> waitChan b1 < waitChan_cap b1
      then b1\<lparr>waitChan := waitChan b1 + 1\<rparr> else b1)"

section \<open>Dispatch forwarders (packages api and mcp)\<close>

text \<open>
  A decoded JSON value, as \<open>json.Unmarshal\<close> stores it in an \<open>interface{}\<close>. An
  object is a Go map: the list holds its entries, one per key. \<open>json.Unmarshal\<close> and
  \<open>json.MarshalIndent\<close> are parameters.
\<close>

datatype json =
  JNull | JBool bool | JNumber string | JString string
  | JArray "json list" | JObject "(string \<times> json) list"

text \<open>
  What the HTTP exchange gave: an error (of \<open>json.Marshal\<close>, \<open>NewRequestWithContext\<close>,
  \<open>httpClient.Do\<close> or \<open>io.ReadAll\<close>), or a status code and the body read.
\<close>

datatype http_result = TransportError string | HttpResponse nat string

datatype forward_error = RequestFailed string | AgentReturned nat string

text \<open>
  \<open>api.Handler.forwardToAgent\<close> returns an \<open>interface{}\<close>: the decoded value, or
  the body as a Go string where it is not JSON.
\<close>

definition api_forwardToAgent :: "(string \<Rightarrow> json option) \<Rightarrow> http_result \<Rightarrow> forward_error + json" where
  "api_forwardToAgent json_Unmarshal h =
     (case h of
        TransportError e \<Rightarrow> Inl (RequestFailed e)
      | HttpResponse code respBody \<Rightarrow>
          if code \<ge> 400 then Inl (AgentReturned code respBody)
          else (case json_Unmarshal respBody of
                  None \<Rightarrow> Inr (JString respBody)
                | Some v \<Rightarrow> Inr v))"

text \<open>
  Decoding into a \<open>map[string]interface{}\<close>: an object gives its map, \<open>null\<close> leaves
  the map nil (no key is found in it), anything else is an error.
\<close>

definition unmarshal_map :: "(string \<Rightarrow> json option) \<Rightarrow> string \<Rightarrow> (string \<times> json) list option" where
  "unmarshal_map json_Unmarshal body =
     (case json_Unmarshal body of
        Some (JObject kvs) \<Rightarrow> Some kvs
      | Some JNull \<Rightarrow> Some []
      | _ \<Rightarrow> None)"

definition mcp_forwardToAgent :: "(string \<Rightarrow> json option) \<Rightarrow> (json \<Rightarrow> string) \<Rightarrow> http_result
    \<Rightarrow> forward_error + string" where
  "mcp_forwardToAgent json_Unmarshal json_MarshalIndent h =
     (case h of
        TransportError e \<Rightarrow> Inl (RequestFailed e)
      | HttpResponse code respBody \<Rightarrow>
          if code \<ge> 400 then Inl (AgentReturned code respBody)
          else (case unmarshal_map json_Unmarshal respBody of
                  None \<Rightarrow> Inr respBody
                | Some result \<Rightarrow>
                    (case map_of result ''result'' of
                       Some r \<Rightarrow>
                         (case r of JString s \<Rightarrow> Inr s | _ \<Rightarrow> Inr (json_MarshalIndent r))
                     | None \<Rightarrow>
                         (case map_of result ''response'' of
                            Some (JString s) \<Rightarrow> Inr s
                          | _ \<Rightarrow>
                              (case map_of result ''output'' of
                                 Some (JString s) \<Rightarrow> Inr s
                               | _ \<Rightarrow> Inr respBody)))))"

section \<open>Operator: what the reconcilers share\<close>

text \<open>
  The reconcilers talk to the API server. Each call's outcome is an input of the model:
  a reconciler is a function of the object it fetched and of the outcomes of its calls,
  and it returns its error (\<open>None\<close> is \<open>nil\<close>) together with the object as the API
  server stores it after the call. A status change that was never written by a
  successful \<open>Status().Update\<close> is not in the stored object.
\<close>

datatype api_error = NotFound | Conflict | AlreadyExists | Failure string

datatype ConditionStatus = ConditionTrue | ConditionFalse | ConditionUnknown

text \<open>\<open>metav1.Condition\<close> without its transition time.\<close>

record Condition =
  cond_Type :: string
  cond_Status :: ConditionStatus
  cond_ObservedGeneration :: int64
  cond_Reason :: string
  cond_Message :: string

text \<open>
  \<open>meta.SetStatusCondition\<close>: one entry per condition type, updated in place, appended
  when the type is new.
\<close>

fun SetStatusCondition :: "Condition list \<Rightarrow> Condition \<Rightarrow> Condition list" where
  "SetStatusCondition [] c = [c]"
| "SetStatusCondition (x # xs) c =
     (if cond_Type x = cond_Type c then c # xs else x # SetStatusCondition xs c)"

definition FindStatusCondition :: "Condition list \<Rightarrow> string \<Rightarrow> Condition option" where
  "FindStatusCondition cs ty = find (\<lambda>c. cond_Type c = ty) cs"

definition ready_condition :: "ConditionStatus \<Rightarrow> int64 \<Rightarrow> string \<Rightarrow> string \<Rightarrow> Condition" where
  "ready_condition st gen reason msg =
     \<lparr>cond_Type = ''Ready'', cond_Status = st, cond_ObservedGeneration = gen,
      cond_Reason = reason, cond_Message = msg\<rparr>"

text \<open>\<open>client.IgnoreNotFound\<close>.\<close>

definition IgnoreNotFound :: "api_error \<Rightarrow> api_error option" where
  "IgnoreNotFound e = (if e = NotFound then None else Some e)"

section \<open>Operator: the Agent reconciler\<close>

record AgentTool =
  tool_Name :: string
  tool_Description :: string

record ToolRef =
  tr_Name :: string
  tr_Namespace :: string

text \<open>The fields of the Agent that \<open>Reconcile\<close> itself reads or writes.\<close>

record AgentSpec =
  spec_Replicas :: "int32 option"
  spec_Tools :: "AgentTool list"
  spec_ToolPackages :: "ToolRef list"
  spec_ServiceAccountName :: string

record AgentStatus =
  as_Ready :: bool
  as_Endpoint :: string
  as_AvailableReplicas :: int32
  as_ConfigHash :: string
  as_AvailableTools :: "AgentTool list"
  as_ObservedGeneration :: int64
  as_Conditions :: "Condition list"

record AgentObj =
  ag_Name :: string
  ag_Namespace :: string
  ag_Generation :: int64
  ag_Spec :: AgentSpec
  ag_Status :: AgentStatus

datatype agent_error =
  Api api_error | ToolGetFailed string string api_error | ToolNotReady string string

definition api_error_text :: "api_error \<Rightarrow> string" where
  "api_error_text e =
     (case e of NotFound \<Rightarrow> ''not found'' | Conflict \<Rightarrow> ''conflict''
      | AlreadyExists \<Rightarrow> ''already exists'' | Failure msg \<Rightarrow> msg)"

text \<open>\<open>err.Error()\<close> of the errors that \<open>resolveToolPackages\<close> builds.\<close>

definition agent_error_text :: "agent_error \<Rightarrow> string" where
  "agent_error_text e =
     (case e of
        Api a \<Rightarrow> api_error_text a
      | ToolGetFailed ns n a \<Rightarrow> ''failed to get Tool '' @ ns @ ''/'' @ n @ '': '' @ api_error_text a
      | ToolNotReady ns n \<Rightarrow> ''tool '' @ ns @ ''/'' @ n @ '' is not ready'')"

text \<open>
  The outcomes of the API calls of one reconciliation: fetching the Agent; fetching a
  Tool by namespace and name (its \<open>Status.Ready\<close>); applying the service account, the
  configuration blob (which gives the configuration hash), the deployment and the
  service; fetching the deployment (its \<open>Status.ReadyReplicas\<close>); writing the status.
\<close>

record agent_world =
  aw_get :: "api_error + AgentObj"
  aw_tool :: "string \<Rightarrow> string \<Rightarrow> api_error + bool"
  aw_serviceaccount :: "api_error option"
  aw_configmap :: "api_error + string"
  aw_deployment :: "api_error option"
  aw_service :: "api_error option"
  aw_get_deployment :: "api_error + int32"
  aw_status_update :: "api_error option"

text \<open>\<open>render.AgentEndpoint\<close>.\<close>

definition AgentEndpoint :: "AgentObj \<Rightarrow> string" where
  "AgentEndpoint agent = ag_Name agent @ ''.'' @ ag_Namespace agent @ ''.svc.cluster.local:'' @ ''8080''"

fun resolveToolPackages :: "agent_world \<Rightarrow> AgentObj \<Rightarrow> ToolRef list \<Rightarrow> (string \<times> string) list
    \<Rightarrow> agent_error + (string \<times> string) list" where
  "resolveToolPackages w agent [] result = Inr result"
| "resolveToolPackages w agent (ref # refs) result =
     (let ns = (if tr_Namespace ref = [] then ag_Namespace agent else tr_Namespace ref) in
      case aw_tool w ns (tr_Name ref) of
        Inl e \<Rightarrow> Inl (ToolGetFailed ns (tr_Name ref) e)
      | Inr tool_ready \<Rightarrow>
          if \<not> tool_ready then Inl (ToolNotReady ns (tr_Name ref))
          else resolveToolPackages w agent refs (result @ [(ns, tr_Name ref)]))"

definition reconcileServiceAccount :: "agent_world \<Rightarrow> AgentObj \<Rightarrow> api_error option" where
  "reconcileServiceAccount w agent =
     (if spec_ServiceAccountName (ag_Spec agent) \<noteq> [] then None else aw_serviceaccount w)"

definition checkDeploymentReady :: "agent_world \<Rightarrow> AgentObj \<Rightarrow> bool \<times> int32" where
  "checkDeploymentReady w agent =
     (case aw_get_deployment w of
        Inl e \<Rightarrow> (False, 0)
      | Inr ReadyReplicas \<Rightarrow>
          (let replicas = (case spec_Replicas (ag_Spec agent) of None \<Rightarrow> 1 | Some n \<Rightarrow> n)
           in (replicas \<le>s ReadyReplicas \<and> 0 <s ReadyReplicas, ReadyReplicas)))"

definition agent_setCondition :: "AgentObj \<Rightarrow> Condition \<Rightarrow> AgentObj" where
  "agent_setCondition agent c =
     agent\<lparr>ag_Status := (ag_Status agent)
       \<lparr>as_Conditions := SetStatusCondition (as_Conditions (ag_Status agent)) c\<rparr>\<rparr>"

text \<open>The status part of \<open>Reconcile\<close>, after the four descriptors were applied.\<close>

definition agent_update_status :: "agent_world \<Rightarrow> AgentObj \<Rightarrow> string \<Rightarrow> AgentObj" where
  "agent_update_status w agent configHash =
     (let (ready, replicas) = checkDeploymentReady w agent;
          st = (ag_Status agent)
                 \<lparr>as_ConfigHash := configHash,
                  as_Endpoint := AgentEndpoint agent,
                  as_ObservedGeneration := ag_Generation agent,
                  as_Ready := ready,
                  as_AvailableReplicas := replicas\<rparr>;
          st' = (if ready \<and> length (spec_Tools (ag_Spec agent)) > 0
                 then st\<lparr>as_AvailableTools := spec_Tools (ag_Spec agent)\<rparr>
                 else if \<not> ready then st\<lparr>as_AvailableTools := []\<rparr>
                 else st)
      in agent_setCondition (agent\<lparr>ag_Status := st'\<rparr>)
           (if ready
            then ready_condition ConditionTrue (ag_Generation agent) ''DeploymentReady''
                   ''Agent deployment is ready''
            else ready_condition ConditionFalse (ag_Generation agent) ''DeploymentNotReady''
                   ''Agent deployment is not yet ready''))"

definition Agent_Reconcile :: "agent_world \<Rightarrow> agent_error option \<times> AgentObj option" where
  "Agent_Reconcile w =
     (case aw_get w of
        Inl e \<Rightarrow> (map_option Api (IgnoreNotFound e), None)
      | Inr agent \<Rightarrow>
          (case resolveToolPackages w agent (spec_ToolPackages (ag_Spec agent)) [] of
             Inl err \<Rightarrow>
               (let agent' = agent_setCondition agent
                      (ready_condition ConditionFalse (ag_Generation agent)
                         ''ToolResolutionFailed'' (agent_error_text err));
                    agent'' = agent'\<lparr>ag_Status := (ag_Status agent')\<lparr>as_Ready := False\<rparr>\<rparr>
                in case aw_status_update w of
                     Some statusErr \<Rightarrow> (Some (Api statusErr), Some agent)
                   | None \<Rightarrow> (Some err, Some agent''))
           | Inr toolPackages \<Rightarrow>
               (case reconcileServiceAccount w agent of
                  Some e \<Rightarrow> (Some (Api e), Some agent)
                | None \<Rightarrow>
                    (case aw_configmap w of
                       Inl e \<Rightarrow> (Some (Api e), Some agent)
                     | Inr configHash \<Rightarrow>
                         (case aw_deployment w of
                            Some e \<Rightarrow> (Some (Api e), Some agent)
                          | None \<Rightarrow>
                              (case aw_service w of
                                 Some e \<Rightarrow> (Some (Api e), Some agent)
                               | None \<Rightarrow>
                                   (case aw_status_update w of
                                      Some e \<Rightarrow> (Some (Api e), Some agent)
                                    | None \<Rightarrow>
                                        (None, Some (agent_update_status w agent configHash)))))))))"

section \<open>Operator: the Route reconciler and the route compiler\<close>

record AgentRef =
  ref_Name :: string
  ref_Namespace :: string

record RouteBackend =
  rb_AgentRef :: AgentRef
  rb_Weight :: "int32 option"

record RouteMatch =
  rm_Agent :: string
  rm_IntentRegex :: string
  rm_TenantID :: string
  rm_Headers :: "(string \<times> string) list"

record RouteRule =
  rr_Name :: string
  rr_Priority :: "int32 option"
  rr_Match :: RouteMatch
  rr_Backends :: "RouteBackend list"

text \<open>A \<open>metav1.Duration\<close> is a number of nanoseconds.\<close>

record CircuitBreakerConfig =
  cb_MaxConcurrent :: "int32 option"
  cb_MaxQueueSize :: "int32 option"
  cb_QueueTimeout :: "int64 option"
  cb_RequestTimeout :: "int64 option"

record RouteDefaults =
  rd_Backend :: "RouteBackend option"
  rd_CircuitBreaker :: "CircuitBreakerConfig option"
  rd_RejectUnmatched :: "bool option"

record RouteSpec =
  rs_Rules :: "RouteRule list"
  rs_Defaults :: "RouteDefaults option"

record BackendStatus =
  bs_AgentRef :: AgentRef
  bs_Ready :: bool
  bs_Endpoint :: string

record RouteStatus =
  rt_Ready :: bool
  rt_ActiveRules :: int32
  rt_Backends :: "BackendStatus list"
  rt_CompiledConfigMap :: string
  rt_ObservedGeneration :: int64
  rt_Conditions :: "Condition list"

record RouteObj =
  ro_Name :: string
  ro_Namespace :: string
  ro_Generation :: int64
  ro_Spec :: RouteSpec
  ro_Status :: RouteStatus

text \<open>
  The outcomes of the API calls: fetching the Route; fetching an Agent by namespace and
  name (\<open>None\<close> on any error, else its \<open>Status.Ready\<close> and \<open>Status.Endpoint\<close>);
  writing the routes ConfigMap; writing the status.
\<close>

record route_world =
  rw_get :: "api_error + RouteObj"
  rw_agent :: "string \<Rightarrow> string \<Rightarrow> (bool \<times> string) option"
  rw_configmap :: "api_error option"
  rw_status_update :: "api_error option"

text \<open>
  The body of both loops of \<open>resolveBackends\<close>, on the state \<open>(backends, allReady,
  seen)\<close>. The key of \<open>seen\<close> is built from the namespace as written in the reference,
  before the Route's namespace is filled in.
\<close>

definition resolve_ref :: "route_world \<Rightarrow> RouteObj \<Rightarrow> AgentRef
    \<Rightarrow> BackendStatus list \<times> bool \<times> string list \<Rightarrow> BackendStatus list \<times> bool \<times> string list" where
  "resolve_ref w route ref st =
     (case st of (backends, allReady, seen) \<Rightarrow>
        (let key = ref_Namespace ref @ ''/'' @ ref_Name ref in
         if key \<in> set seen then st
         else
           (let ns = (if ref_Namespace ref = [] then ro_Namespace route else ref_Namespace ref);
                status = \<lparr>bs_AgentRef = \<lparr>ref_Name = ref_Name ref, ref_Namespace = ns\<rparr>,
                          bs_Ready = False, bs_Endpoint = []\<rparr>
            in case rw_agent w ns (ref_Name ref) of
                 None \<Rightarrow> (backends @ [status], False, key # seen)
               | Some (agent_ready, agent_endpoint) \<Rightarrow>
                   (backends @ [status\<lparr>bs_Ready := agent_ready, bs_Endpoint := agent_endpoint\<rparr>],
                    allReady \<and> agent_ready, key # seen))))"

definition resolveBackends :: "route_world \<Rightarrow> RouteObj \<Rightarrow> BackendStatus list \<times> bool" where
  "resolveBackends w route =
     (let st = fold (\<lambda>rule st. fold (\<lambda>backend st. resolve_ref w route (rb_AgentRef backend) st)
                                   (rr_Backends rule) st)
                 (rs_Rules (ro_Spec route)) ([], True, []);
          st' = (case rs_Defaults (ro_Spec route) of
                   None \<Rightarrow> st
                 | Some d \<Rightarrow>
                     (case rd_Backend d of
                        None \<Rightarrow> st
                      | Some b \<Rightarrow> resolve_ref w route (rb_AgentRef b) st))
      in (fst st', fst (snd st')))"

text \<open>
  \<open>backendMap\<close> of \<open>compileRouteConfig\<close>; a key that is missing reads as the zero
  \<open>BackendStatus\<close>.
\<close>

definition backendMap_of :: "BackendStatus list \<Rightarrow> string \<rightharpoonup> BackendStatus" where
  "backendMap_of backends =
     fold (\<lambda>b m. m(ref_Namespace (bs_AgentRef b) @ ''/'' @ ref_Name (bs_AgentRef b) \<mapsto> b))
       backends Map.empty"

definition backendMap_get :: "(string \<rightharpoonup> BackendStatus) \<Rightarrow> string \<Rightarrow> BackendStatus" where
  "backendMap_get m key =
     (case m key of
        None \<Rightarrow> \<lparr>bs_AgentRef = \<lparr>ref_Name = [], ref_Namespace = []\<rparr>, bs_Ready = False,
                  bs_Endpoint = []\<rparr>
      | Some b \<Rightarrow> b)"

definition compile_backend :: "RouteObj \<Rightarrow> (string \<rightharpoonup> BackendStatus) \<Rightarrow> RouteBackend
    \<Rightarrow> CompiledRouteBackend" where
  "compile_backend route backendMap backend =
     (let ns = (if ref_Namespace (rb_AgentRef backend) = [] then ro_Namespace route
                else ref_Namespace (rb_AgentRef backend));
          key = ns @ ''/'' @ ref_Name (rb_AgentRef backend);
          status = backendMap_get backendMap key;
          weight = (case rb_Weight backend of None \<Rightarrow> 100 | Some wt \<Rightarrow> wt)
      in \<lparr>AgentName = ref_Name (rb_AgentRef backend), Namespace = ns,
          Endpoint = bs_Endpoint status, Weight = weight, Ready = bs_Ready status\<rparr>)"

text \<open>The body of the loop over the rules: no regular expression is compiled here.\<close>

definition compile_rule :: "RouteObj \<Rightarrow> (string \<rightharpoonup> BackendStatus) \<Rightarrow> RouteRule \<Rightarrow> CompiledRouteRule" where
  "compile_rule route backendMap rrule =
     \<lparr>Name = rr_Name rrule,
      Priority = (case rr_Priority rrule of None \<Rightarrow> 0 | Some p \<Rightarrow> p),
      Match = \<lparr>Agent = rm_Agent (rr_Match rrule), IntentRegex = rm_IntentRegex (rr_Match rrule),
               TenantID = rm_TenantID (rr_Match rrule), Headers = rm_Headers (rr_Match rrule)\<rparr>,
      Backends = map (compile_backend route backendMap) (rr_Backends rrule)\<rparr>"

text \<open>The rules as they stand before \<open>sort.Slice\<close> is called.\<close>

definition compile_rules :: "RouteObj \<Rightarrow> BackendStatus list \<Rightarrow> CompiledRouteRule list" where
  "compile_rules route backends =
     map (compile_rule route (backendMap_of backends)) (rs_Rules (ro_Spec route))"

text \<open>\<open>Duration.Milliseconds\<close>: the nanoseconds divided by a million, towards zero.\<close>

definition Milliseconds :: "int64 \<Rightarrow> int64" where
  "Milliseconds d = word_of_int (sint d sdiv 1000000)"

definition compile_defaults :: "RouteObj \<Rightarrow> BackendStatus list \<Rightarrow> RouteDefaults \<Rightarrow> RouteDefaultConfig" where
  "compile_defaults route backends d =
     (let cb = (case rd_CircuitBreaker d of
                  None \<Rightarrow> \<lparr>cb_MaxConcurrent = None, cb_MaxQueueSize = None,
                            cb_QueueTimeout = None, cb_RequestTimeout = None\<rparr>
                | Some c \<Rightarrow> c)
      in \<lparr>Backend = map_option (compile_backend route (backendMap_of backends)) (rd_Backend d),
          MaxConcurrent = (case cb_MaxConcurrent cb of None \<Rightarrow> 100 | Some n \<Rightarrow> n),
          MaxQueueSize = (case cb_MaxQueueSize cb of None \<Rightarrow> 50 | Some n \<Rightarrow> n),
          QueueTimeoutMs = (case cb_QueueTimeout cb of None \<Rightarrow> 30000 | Some t \<Rightarrow> Milliseconds t),
          RequestTimeoutMs =
            (case cb_RequestTimeout cb of None \<Rightarrow> 300000 | Some t \<Rightarrow> Milliseconds t),
          RejectUnmatched = (case rd_RejectUnmatched d of None \<Rightarrow> False | Some r \<Rightarrow> r)\<rparr>)"

text \<open>
  \<open>sort.Slice\<close> belongs to the standard library and is a parameter: it takes the
  \<open>less\<close> function and the slice and returns the slice as it is after the call. The
  \<open>less\<close> of the source is \<open>Rules[i].Priority > Rules[j].Priority\<close>.
\<close>

definition priority_less :: "CompiledRouteRule \<Rightarrow> CompiledRouteRule \<Rightarrow> bool" where
  "priority_less a b = (Priority b <s Priority a)"

definition compileRouteConfig ::
  "((CompiledRouteRule \<Rightarrow> CompiledRouteRule \<Rightarrow> bool) \<Rightarrow> CompiledRouteRule list \<Rightarrow> CompiledRouteRule list)
    \<Rightarrow> RouteObj \<Rightarrow> BackendStatus list \<Rightarrow> RouteConfig" where
  "compileRouteConfig sort_Slice route backends =
     \<lparr>Rules = sort_Slice priority_less (compile_rules route backends),
      Defaults = map_option (compile_defaults route backends) (rs_Defaults (ro_Spec route))\<rparr>"

definition route_setCondition :: "RouteObj \<Rightarrow> Condition \<Rightarrow> RouteObj" where
  "route_setCondition route c =
     route\<lparr>ro_Status := (ro_Status route)
       \<lparr>rt_Conditions := SetStatusCondition (rt_Conditions (ro_Status route)) c\<rparr>\<rparr>"

text \<open>
  What one reconciliation of a Route leaves: its error, whether it asks for a requeue,
  the Route as stored, and the table it wrote to the routes ConfigMap, if any.
\<close>

record route_result =
  res_err :: "api_error option"
  res_requeue :: bool
  res_route :: "RouteObj option"
  res_table :: "RouteConfig option"

definition route_write_status :: "route_world \<Rightarrow> RouteObj \<Rightarrow> RouteObj \<Rightarrow> api_error option
    \<Rightarrow> RouteConfig option \<Rightarrow> route_result" where
  "route_write_status w stored route' err_after table =
     (case rw_status_update w of
        Some statusErr \<Rightarrow>
          if statusErr = Conflict
          then \<lparr>res_err = None, res_requeue = True, res_route = Some stored, res_table = table\<rparr>
          else \<lparr>res_err = Some statusErr, res_requeue = False, res_route = Some stored,
                res_table = table\<rparr>
      | None \<Rightarrow>
          \<lparr>res_err = err_after, res_requeue = False, res_route = Some route', res_table = table\<rparr>)"

definition Route_Reconcile ::
  "((CompiledRouteRule \<Rightarrow> CompiledRouteRule \<Rightarrow> bool) \<Rightarrow> CompiledRouteRule list \<Rightarrow> CompiledRouteRule list)
    \<Rightarrow> route_world \<Rightarrow> route_result" where
  "Route_Reconcile sort_Slice w =
     (case rw_get w of
        Inl e \<Rightarrow> \<lparr>res_err = IgnoreNotFound e, res_requeue = False, res_route = None,
                   res_table = None\<rparr>
      | Inr route0 \<Rightarrow>
          (let (backends, allReady) = resolveBackends w route0;
               route = route0\<lparr>ro_Status := (ro_Status route0)\<lparr>rt_Backends := backends\<rparr>\<rparr>;
               routeConfig = compileRouteConfig sort_Slice route backends
           in case rw_configmap w of
                Some err \<Rightarrow>
                  (let r1 = route_setCondition route
                         (ready_condition ConditionFalse (ro_Generation route)
                            ''ConfigMapUpdateFailed'' (api_error_text err));
                       r2 = r1\<lparr>ro_Status := (ro_Status r1)\<lparr>rt_Ready := False\<rparr>\<rparr>
                   in route_write_status w route0 r2 (Some err) None)
              | None \<Rightarrow>
                  (let r1 = route\<lparr>ro_Status := (ro_Status route)
                              \<lparr>rt_ActiveRules := word_of_nat (length (rs_Rules (ro_Spec route))),
                               rt_CompiledConfigMap := ''mcp-fabric-gateway-routes'',
                               rt_ObservedGeneration := ro_Generation route,
                               rt_Ready := allReady\<rparr>\<rparr>;
                       r2 = route_setCondition r1
                         (if allReady
                          then ready_condition ConditionTrue (ro_Generation route)
                                 ''AllBackendsReady'' ''All backend agents are ready''
                          else ready_condition ConditionFalse (ro_Generation route)
                                 ''BackendsNotReady'' ''Some backend agents are not ready'')
                   in route_write_status w route0 r2 None (Some routeConfig))))"

section \<open>Operator: the Task reconciler\<close>

text \<open>
  \<open>TaskPhase\<close> is a string restricted to five values; \<open>PhaseUnset\<close> is the empty
  string of a Task that was never reconciled. Times are nanoseconds since the epoch.
\<close>

datatype TaskPhase =
  PhaseUnset | TaskPhasePending | TaskPhaseRunning | TaskPhaseCompleted | TaskPhaseFailed
  | TaskPhasePaused

record IterationResult =
  it_Iteration :: int32
  it_Passed :: bool
  it_StartedAt :: int
  it_CompletedAt :: "int option"
  it_Learnings :: string

record TaskLimits =
  lim_TotalTimeout :: "int64 option"
  lim_MaxJobRecreations :: "int32 option"

record TaskSpec =
  ts_Paused :: bool
  ts_Limits :: "TaskLimits option"
  ts_GitURL :: "string option"

record TaskStatus =
  tk_Phase :: TaskPhase
  tk_CurrentIteration :: int32
  tk_CompletedTasks :: int32
  tk_TotalTasks :: int32
  tk_ConsecutiveFailures :: int32
  tk_StartedAt :: "int option"
  tk_CompletedAt :: "int option"
  tk_RecentIterations :: "IterationResult list"
  tk_RepositoryURL :: string
  tk_LastCommitSHA :: string
  tk_PullRequestURL :: string
  tk_Message :: string
  tk_ObservedGeneration :: int64
  tk_Conditions :: "Condition list"

record TaskObj =
  to_Name :: string
  to_Namespace :: string
  to_Generation :: int64
  to_DeletionTimestamp :: "int option"
  to_Finalizers :: "string list"
  to_Annotations :: "(string \<times> string) list"
  to_Spec :: TaskSpec
  to_Status :: TaskStatus

record OrchestratorResult =
  or_Passed :: bool
  or_CompletedTasks :: int
  or_TotalTasks :: int
  or_Iterations :: int
  or_Learnings :: string
  or_CommitSHA :: string
  or_PullRequestURL :: string
  or_PRD :: string
  or_Error :: string
  or_NoChanges :: bool
  or_Pushed :: bool
  or_GitError :: string

record JobStatus =
  job_Succeeded :: int32
  job_Failed :: int32
  job_Conditions :: "(string \<times> string) list"

definition orchestratorResultMarker :: string where
  "orchestratorResultMarker = ''ORCHESTRATOR_RESULT:''"

definition taskFinalizer :: string where
  "taskFinalizer = ''fabric.jarsater.ai/task-cleanup''"

definition jobRecreationAnnotation :: string where
  "jobRecreationAnnotation = ''fabric.jarsater.ai/job-recreations''"

definition maxJobRecreations :: int32 where "maxJobRecreations = 3"
definition defaultTotalTimeout :: int64 where "defaultTotalTimeout = 24 * 3600 * Second"
definition jobPollInterval :: int64 where "jobPollInterval = 10 * Second"
definition failureRequeueDelay :: int64 where "failureRequeueDelay = 30 * Second"

text \<open>
  The outcomes of the calls of one reconciliation. \<open>tw_container_log\<close> is what the
  container \<open>orchestrator\<close> of the Job's first pod has written, line by line, and
  \<open>tw_scan_error\<close> says that the scanner stopped on an error (a failed read, a line
  beyond its buffer). \<open>tw_countTasksInPRD\<close>, \<open>tw_Sscanf\<close>, \<open>tw_Sprintf\<close>,
  \<open>tw_Duration_String\<close> and \<open>tw_Unmarshal\<close> stand for \<open>countTasksInPRD\<close> (a JSON
  parse), \<open>fmt.Sscanf\<close> and \<open>fmt.Sprintf\<close> with \<open>%d\<close>, the text of a
  \<open>time.Duration\<close> under \<open>%v\<close>, and \<open>json.Unmarshal\<close> into an
  \<open>OrchestratorResult\<close>.
\<close>

record task_world =
  tw_get :: "api_error + TaskObj"
  tw_now :: int
  tw_update :: "api_error option"
  tw_status_update :: "api_error option"
  tw_orchestrator :: "api_error option"
  tw_worker :: "api_error option"
  tw_pvc :: "api_error option"
  tw_task_source :: "string + string"
  tw_countTasksInPRD :: "string \<Rightarrow> int"
  tw_render_job :: "string option"
  tw_controller_ref :: "api_error option"
  tw_create_job :: "api_error option"
  tw_get_job :: "api_error + JobStatus"
  tw_clientset :: bool
  tw_list_pods :: "api_error + nat"
  tw_container_log :: "api_error + string list"
  tw_scan_error :: bool
  tw_Unmarshal :: "string \<Rightarrow> OrchestratorResult option"
  tw_Sscanf :: "string \<Rightarrow> int"
  tw_Sprintf :: "int \<Rightarrow> string"
  tw_Duration_String :: "int64 \<Rightarrow> string"

text \<open>
  What one reconciliation leaves: its error, \<open>Result.Requeue\<close> and
  \<open>Result.RequeueAfter\<close>, the Task as stored, and \<open>tr_calls\<close>, the calls it made
  on other objects whose outcome it drops or only logs: the deletion of the
  orchestration Job (\<open>cleanupOrchestratorJob\<close>), the deletion of the workspace
  volume claim, and \<open>persistUpdatedPRD\<close> with the PRD it was given. Log lines and
  metrics are left out.
\<close>

datatype cluster_call = DeleteOrchestratorJob | DeleteWorkspacePVC | PersistUpdatedPRD string

record task_result =
  tr_err :: "api_error option"
  tr_requeue :: bool
  tr_requeue_after :: int64
  tr_task :: "TaskObj option"
  tr_calls :: "cluster_call list"

definition finish :: "api_error option \<Rightarrow> TaskObj \<Rightarrow> task_result" where
  "finish e t = \<lparr>tr_err = e, tr_requeue = False, tr_requeue_after = 0, tr_task = Some t,
                  tr_calls = []\<rparr>"

definition requeue :: "TaskObj \<Rightarrow> task_result" where
  "requeue t = \<lparr>tr_err = None, tr_requeue = True, tr_requeue_after = 0, tr_task = Some t,
                 tr_calls = []\<rparr>"

definition requeue_after :: "int64 \<Rightarrow> api_error option \<Rightarrow> TaskObj \<Rightarrow> task_result" where
  "requeue_after d e t = \<lparr>tr_err = e, tr_requeue = False, tr_requeue_after = d, tr_task = Some t,
                           tr_calls = []\<rparr>"

definition task_setCondition :: "TaskObj \<Rightarrow> ConditionStatus \<Rightarrow> string \<Rightarrow> string \<Rightarrow> TaskObj" where
  "task_setCondition task st reason msg =
     task\<lparr>to_Status := (to_Status task)
       \<lparr>tk_Conditions := SetStatusCondition (tk_Conditions (to_Status task))
          (ready_condition st (to_Generation task) reason msg)\<rparr>\<rparr>"

definition set_phase :: "TaskObj \<Rightarrow> TaskPhase \<Rightarrow> TaskObj" where
  "set_phase task p = task\<lparr>to_Status := (to_Status task)\<lparr>tk_Phase := p\<rparr>\<rparr>"

text \<open>
  \<open>Status().Update\<close> followed by a return: on an error the stored Task is still
  \<open>stored\<close> and the error is returned; otherwise \<open>task'\<close> is stored and \<open>ok\<close> is the
  result.
\<close>

definition status_update_then :: "task_world \<Rightarrow> TaskObj \<Rightarrow> TaskObj \<Rightarrow> (TaskObj \<Rightarrow> task_result)
    \<Rightarrow> task_result" where
  "status_update_then w stored task' ok =
     (case tw_status_update w of Some e \<Rightarrow> finish (Some e) stored | None \<Rightarrow> ok task')"

subsection \<open>Result extraction from the Job's log\<close>

datatype extract_error =
  NoClientset | ListPodsFailed api_error | NoPods | LogStreamFailed api_error | ScanFailed
  | MarkerNotFound | ParseFailed

text \<open>The log request asks for \<open>TailLines = 1000\<close>: the last thousand lines.\<close>

definition tailLines :: nat where "tailLines = 1000"

definition tail_lines :: "nat \<Rightarrow> string list \<Rightarrow> string list" where
  "tail_lines n ls = drop (length ls - n) ls"

text \<open>The scanning loop; \<open>resultLine\<close> is the variable of the source.\<close>

fun scan_lines :: "string list \<Rightarrow> string \<Rightarrow> string" where
  "scan_lines [] resultLine = resultLine"
| "scan_lines (line # ls) resultLine =
     (let idx = strings_Index line orchestratorResultMarker in
      if idx \<noteq> - 1
      then scan_lines ls (drop (nat idx + length orchestratorResultMarker) line)
      else scan_lines ls resultLine)"

text \<open>
  \<open>strings.TrimSpace\<close> removes the leading and the trailing white space of Unicode
  from a string, which is a sequence of bytes read as UTF-8. The white space is
  U+0009 to U+000D, U+0020, U+0085, U+00A0, U+1680, U+2000 to U+200A, U+2028, U+2029,
  U+202F, U+205F and U+3000; \<open>white_space\<close> lists the bytes of each. No encoding in
  the list begins another one, none is the end of the encoding of another character,
  and a byte that does not decode is not white space: so the string is cut exactly as
  long as it begins, or ends, with one of these byte sequences.
\<close>

definition white_space :: "string list" where
  "white_space =
     [[CHR 0x09], [CHR 0x0A], [CHR 0x0B], [CHR 0x0C], [CHR 0x0D], [CHR 0x20],
      [CHR 0xC2, CHR 0x85], [CHR 0xC2, CHR 0xA0], [CHR 0xE1, CHR 0x9A, CHR 0x80],
      [CHR 0xE2, CHR 0x80, CHR 0x80], [CHR 0xE2, CHR 0x80, CHR 0x81],
      [CHR 0xE2, CHR 0x80, CHR 0x82], [CHR 0xE2, CHR 0x80, CHR 0x83],
      [CHR 0xE2, CHR 0x80, CHR 0x84], [CHR 0xE2, CHR 0x80, CHR 0x85],
      [CHR 0xE2, CHR 0x80, CHR 0x86], [CHR 0xE2, CHR 0x80, CHR 0x87],
      [CHR 0xE2, CHR 0x80, CHR 0x88], [CHR 0xE2, CHR 0x80, CHR 0x89],
      [CHR 0xE2, CHR 0x80, CHR 0x8A], [CHR 0xE2, CHR 0x80, CHR 0xA8],
      [CHR 0xE2, CHR 0x80, CHR 0xA9], [CHR 0xE2, CHR 0x80, CHR 0xAF],
      [CHR 0xE2, CHR 0x81, CHR 0x9F], [CHR 0xE3, CHR 0x80, CHR 0x80]]"

text \<open>The number of bytes of the white space character that begins, or ends, \<open>s\<close>.\<close>

definition leading_space :: "string \<Rightarrow> nat" where
  "leading_space s =
     (case find (\<lambda>t. take (length t) s = t) white_space of None \<Rightarrow> 0 | Some t \<Rightarrow> length t)"

definition trailing_space :: "string \<Rightarrow> nat" where
  "trailing_space s =
     (case find (\<lambda>t. length t \<le> length s \<and> drop (length s - length t) s = t) white_space of
        None \<Rightarrow> 0 | Some t \<Rightarrow> length t)"

lemma leading_space_Nil: "leading_space [] = 0"
  by (simp add: leading_space_def white_space_def)

lemma trailing_space_Nil: "trailing_space [] = 0"
  by (simp add: trailing_space_def white_space_def)

function TrimLeft :: "string \<Rightarrow> string" where
  "TrimLeft s = (if leading_space s = 0 then s else TrimLeft (drop (leading_space s) s))"
  by pat_completeness auto
termination
proof (relation "measure length")
  fix s :: string
  assume "leading_space s \<noteq> 0"
  then have "s \<noteq> []" using leading_space_Nil by auto
  with \<open>leading_space s \<noteq> 0\<close> show "(drop (leading_space s) s, s) \<in> measure length" by simp
qed simp

function TrimRight :: "string \<Rightarrow> string" where
  "TrimRight s =
     (if trailing_space s = 0 then s else TrimRight (take (length s - trailing_space s) s))"
  by pat_completeness auto
termination
proof (relation "measure length")
  fix s :: string
  assume "trailing_space s \<noteq> 0"
  then have "s \<noteq> []" using trailing_space_Nil by auto
  with \<open>trailing_space s \<noteq> 0\<close>
  show "(take (length s - trailing_space s) s, s) \<in> measure length" by simp
qed simp

declare TrimLeft.simps [simp del] TrimRight.simps [simp del]

definition TrimSpace :: "string \<Rightarrow> string" where
  "TrimSpace s = TrimRight (TrimLeft s)"

definition getOrchestratorResult :: "task_world \<Rightarrow> extract_error + OrchestratorResult" where
  "getOrchestratorResult w =
     (if \<not> tw_clientset w then Inl NoClientset
      else case tw_list_pods w of
        Inl e \<Rightarrow> Inl (ListPodsFailed e)
      | Inr npods \<Rightarrow>
          if npods = 0 then Inl NoPods
          else case tw_container_log w of
            Inl e \<Rightarrow> Inl (LogStreamFailed e)
          | Inr container_log \<Rightarrow>
              (let resultLine = scan_lines (tail_lines tailLines container_log) [] in
               if tw_scan_error w then Inl ScanFailed
               else if resultLine = [] then Inl MarkerNotFound
               else case tw_Unmarshal w (TrimSpace resultLine) of
                 None \<Rightarrow> Inl ParseFailed
               | Some result \<Rightarrow> Inr result))"

subsection \<open>The phases\<close>

definition handlePendingPhase :: "task_world \<Rightarrow> TaskObj \<Rightarrow> task_result" where
  "handlePendingPhase w task =
     (let fail = (\<lambda>reason msg.
            status_update_then w task (task_setCondition task ConditionFalse reason msg)
              (requeue_after failureRequeueDelay None))
      in case tw_orchestrator w of
        Some e \<Rightarrow> fail ''OrchestratorNotFound'' (api_error_text e)
      | None \<Rightarrow>
      (case tw_worker w of
        Some e \<Rightarrow> fail ''WorkerNotFound'' (api_error_text e)
      | None \<Rightarrow>
      (case tw_pvc w of
        Some e \<Rightarrow> requeue_after failureRequeueDelay (Some e) task
      | None \<Rightarrow>
      (case tw_task_source w of
        Inl msg \<Rightarrow> fail ''TaskSourceError'' msg
      | Inr prdContent \<Rightarrow>
      (case tw_render_job w of
        Some msg \<Rightarrow> fail ''JobRenderError'' msg
      | None \<Rightarrow>
      (case tw_controller_ref w of
        Some e \<Rightarrow> finish (Some e) task
      | None \<Rightarrow>
      (case (case tw_create_job w of
               Some e \<Rightarrow> if e = AlreadyExists then None else Some e
             | None \<Rightarrow> None) of
        Some e \<Rightarrow> requeue_after failureRequeueDelay (Some e) task
      | None \<Rightarrow>
          (let st = (to_Status task)
                 \<lparr>tk_Phase := TaskPhaseRunning,
                  tk_StartedAt := Some (tw_now w),
                  tk_TotalTasks := word_of_int (tw_countTasksInPRD w prdContent)\<rparr>;
               st' = (case ts_GitURL (to_Spec task) of
                        None \<Rightarrow> st
                      | Some url \<Rightarrow> st\<lparr>tk_RepositoryURL := url\<rparr>);
               task' = task_setCondition (task\<lparr>to_Status := st'\<rparr>) ConditionFalse ''Running''
                         ''Orchestrator Job started''
           in status_update_then w task task' (requeue_after jobPollInterval None)))))))))"

text \<open>
  \<open>handleJobSuccess\<close>. A result that carries a PRD is handed to
  \<open>persistUpdatedPRD\<close> before the status is written; a failure there is only logged.
\<close>

definition handleJobSuccess :: "task_world \<Rightarrow> TaskObj \<Rightarrow> task_result" where
  "handleJobSuccess w task =
     (let result = (case getOrchestratorResult w of
                      Inl err \<Rightarrow>
                        \<lparr>or_Passed = True, or_CompletedTasks = 0, or_TotalTasks = 0,
                         or_Iterations = 0,
                         or_Learnings = ''Job completed but result extraction failed'',
                         or_CommitSHA = [], or_PullRequestURL = [], or_PRD = [], or_Error = [],
                         or_NoChanges = False, or_Pushed = False, or_GitError = []\<rparr>
                    | Inr r \<Rightarrow> r);
          now = tw_now w;
          st1 = (to_Status task)
                  \<lparr>tk_CompletedAt := Some now,
                   tk_CurrentIteration := word_of_int (or_Iterations result),
                   tk_CompletedTasks := word_of_int (or_CompletedTasks result)\<rparr>;
          st2 = (if or_TotalTasks result > 0
                 then st1\<lparr>tk_TotalTasks := word_of_int (or_TotalTasks result)\<rparr> else st1);
          t3 = (if or_Passed result
                then task_setCondition
                       (task\<lparr>to_Status := st2\<lparr>tk_Phase := TaskPhaseCompleted,
                                tk_Message := ''All tasks completed successfully''\<rparr>\<rparr>)
                       ConditionTrue ''Completed'' ''All tasks completed successfully''
                else (let msg = (if or_Error result \<noteq> [] then or_Error result
                                 else ''Orchestrator completed but not all tasks passed'')
                      in task_setCondition
                           (task\<lparr>to_Status := st2\<lparr>tk_Phase := TaskPhaseFailed,
                                    tk_Message := msg\<rparr>\<rparr>)
                           ConditionFalse ''PartialCompletion'' msg));
          st4 = (if or_CommitSHA result \<noteq> []
                 then (to_Status t3)\<lparr>tk_LastCommitSHA := or_CommitSHA result\<rparr>
                 else to_Status t3);
          st5 = (if or_PullRequestURL result \<noteq> []
                 then st4\<lparr>tk_PullRequestURL := or_PullRequestURL result\<rparr> else st4);
          iterResult = \<lparr>it_Iteration = word_of_int (or_Iterations result),
                        it_Passed = or_Passed result,
                        it_StartedAt = (case tk_StartedAt (to_Status task) of
                                          Some s \<Rightarrow> s | None \<Rightarrow> now),
                        it_CompletedAt = Some now,
                        it_Learnings = or_Learnings result\<rparr>;
          recent = tk_RecentIterations st5 @ [iterResult];
          recent' = (if length recent > 10 then drop (length recent - 10) recent else recent);
          task' = t3\<lparr>to_Status := st5\<lparr>tk_RecentIterations := recent',
                                       tk_ObservedGeneration := to_Generation task\<rparr>\<rparr>
      in (status_update_then w task task' (finish None))
           \<lparr>tr_calls := (if or_PRD result \<noteq> [] then [PersistUpdatedPRD (or_PRD result)]
                         else [])\<rparr>)"

definition handleJobFailure :: "task_world \<Rightarrow> TaskObj \<Rightarrow> task_result" where
  "handleJobFailure w task =
     (let st1 = (to_Status task)
                  \<lparr>tk_Phase := TaskPhaseFailed, tk_CompletedAt := Some (tw_now w),
                   tk_Message := ''Orchestrator Job failed''\<rparr>;
          st2 = (case getOrchestratorResult w of
                   Inl err \<Rightarrow> st1
                 | Inr result \<Rightarrow>
                     (let s1 = st1\<lparr>tk_CurrentIteration := word_of_int (or_Iterations result),
                                   tk_CompletedTasks := word_of_int (or_CompletedTasks result)\<rparr>;
                          s2 = (if or_Error result \<noteq> [] then s1\<lparr>tk_Message := or_Error result\<rparr>
                                else s1)
                      in if or_CommitSHA result \<noteq> []
                         then s2\<lparr>tk_LastCommitSHA := or_CommitSHA result\<rparr> else s2));
          t3 = task_setCondition (task\<lparr>to_Status := st2\<rparr>) ConditionFalse ''JobFailed''
                 (tk_Message st2);
          task' = t3\<lparr>to_Status := (to_Status t3)\<lparr>tk_ObservedGeneration := to_Generation task\<rparr>\<rparr>
      in status_update_then w task task' (finish None))"

text \<open>The branch of \<open>handleRunningPhase\<close> for a Job that is not found.\<close>

definition handleJobLost :: "task_world \<Rightarrow> TaskObj \<Rightarrow> task_result" where
  "handleJobLost w task =
     (let recreations = (case map_of (to_Annotations task) jobRecreationAnnotation of
                           None \<Rightarrow> 0 | Some v \<Rightarrow> tw_Sscanf w v) + 1;
          maxRecreations = (case ts_Limits (to_Spec task) of
                              None \<Rightarrow> maxJobRecreations
                            | Some l \<Rightarrow> (case lim_MaxJobRecreations l of
                                           None \<Rightarrow> maxJobRecreations | Some m \<Rightarrow> m))
      in if maxRecreations <s (word_of_int recreations :: int32) then
           status_update_then w task
             (task\<lparr>to_Status := (to_Status task)
                \<lparr>tk_Phase := TaskPhaseFailed,
                 tk_Message := ''Orchestrator Job lost '' @ tw_Sprintf w (recreations - 1)
                   @ '' times, giving up'',
                 tk_CompletedAt := Some (tw_now w)\<rparr>\<rparr>)
             (finish None)
         else
           (let annotated = task\<lparr>to_Annotations :=
                  AList.update jobRecreationAnnotation (tw_Sprintf w recreations)
                    (to_Annotations task)\<rparr>
            in case tw_update w of
                 Some e \<Rightarrow> finish (Some e) task
               | None \<Rightarrow>
                   status_update_then w annotated (set_phase annotated TaskPhasePending)
                     (requeue_after failureRequeueDelay None)))"

definition handleRunningPhase :: "task_world \<Rightarrow> TaskObj \<Rightarrow> task_result" where
  "handleRunningPhase w task =
     (let TotalTimeout = (case ts_Limits (to_Spec task) of
                            None \<Rightarrow> defaultTotalTimeout
                          | Some l \<Rightarrow> (case lim_TotalTimeout l of
                                         None \<Rightarrow> defaultTotalTimeout | Some t \<Rightarrow> t))
      in if (case tk_StartedAt (to_Status task) of
               None \<Rightarrow> False | Some started \<Rightarrow> sint TotalTimeout < tw_now w - started)
         then
           (let msg = ''Total timeout exceeded: '' @ tw_Duration_String w TotalTimeout;
                t1 = task\<lparr>to_Status := (to_Status task)
                       \<lparr>tk_Phase := TaskPhaseFailed, tk_Message := msg,
                        tk_CompletedAt := Some (tw_now w)\<rparr>\<rparr>
            in status_update_then w task
                 (task_setCondition t1 ConditionFalse ''TotalTimeoutExceeded'' msg)
                 (\<lambda>t. (finish None t)\<lparr>tr_calls := [DeleteOrchestratorJob]\<rparr>))
         else case tw_get_job w of
           Inl e \<Rightarrow> if e = NotFound then handleJobLost w task else finish (Some e) task
         | Inr job \<Rightarrow>
             if 0 <s job_Succeeded job then handleJobSuccess w task
             else if 0 <s job_Failed job then handleJobFailure w task
             else if list_ex (\<lambda>c. fst c = ''Failed'' \<and> snd c = ''DeadlineExceeded'')
                       (job_Conditions job)
             then
               (let t1 = task\<lparr>to_Status := (to_Status task)
                           \<lparr>tk_Phase := TaskPhaseFailed,
                            tk_Message := ''Orchestrator Job deadline exceeded'',
                            tk_CompletedAt := Some (tw_now w)\<rparr>\<rparr>
                in status_update_then w task
                     (task_setCondition t1 ConditionFalse ''JobDeadlineExceeded''
                        ''Orchestrator Job deadline exceeded'')
                     (finish None))
             else requeue_after jobPollInterval None task)"

text \<open>
  \<open>handleDeletion\<close>: both deletions are requested before the finalizer is removed,
  and neither outcome stops the removal.
\<close>

definition handleDeletion :: "task_world \<Rightarrow> TaskObj \<Rightarrow> task_result" where
  "handleDeletion w task =
     (if taskFinalizer \<notin> set (to_Finalizers task) then finish None task
      else (case tw_update w of
              Some e \<Rightarrow> finish (Some e) task
            | None \<Rightarrow>
                finish None
                  (task\<lparr>to_Finalizers := filter (\<lambda>f. f \<noteq> taskFinalizer) (to_Finalizers task)\<rparr>))
           \<lparr>tr_calls := [DeleteOrchestratorJob, DeleteWorkspacePVC]\<rparr>)"

definition Task_Reconcile :: "task_world \<Rightarrow> task_result" where
  "Task_Reconcile w =
     (case tw_get w of
        Inl e \<Rightarrow> \<lparr>tr_err = IgnoreNotFound e, tr_requeue = False, tr_requeue_after = 0,
                   tr_task = None, tr_calls = []\<rparr>
      | Inr task \<Rightarrow>
          if to_DeletionTimestamp task \<noteq> None then handleDeletion w task
          else if taskFinalizer \<notin> set (to_Finalizers task) then
            (case tw_update w of
               Some e \<Rightarrow> finish (Some e) task
             | None \<Rightarrow> requeue (task\<lparr>to_Finalizers := to_Finalizers task @ [taskFinalizer]\<rparr>))
          else if tk_Phase (to_Status task) = PhaseUnset then
            status_update_then w task
              (task\<lparr>to_Status := (to_Status task)
                 \<lparr>tk_Phase := TaskPhasePending, tk_CurrentIteration := 0,
                  tk_CompletedTasks := 0, tk_ConsecutiveFailures := 0\<rparr>\<rparr>)
              requeue
          else if ts_Paused (to_Spec task) then
            (if tk_Phase (to_Status task) \<noteq> TaskPhasePaused then
               status_update_then w task
                 (task_setCondition (set_phase task TaskPhasePaused) ConditionFalse ''Paused''
                    ''Task is paused'')
                 (finish None)
             else finish None task)
          else if tk_Phase (to_Status task) = TaskPhaseCompleted \<or>
                  tk_Phase (to_Status task) = TaskPhaseFailed then finish None task
          else
            (case tk_Phase (to_Status task) of
               TaskPhasePending \<Rightarrow> handlePendingPhase w task
             | TaskPhaseRunning \<Rightarrow> handleRunningPhase w task
             | _ \<Rightarrow>
                 if tk_Phase (to_Status task) = TaskPhasePaused \<and> \<not> ts_Paused (to_Spec task)
                 then
                   status_update_then w task
                     (task_setCondition
                        ((set_phase task TaskPhaseRunning)
                           \<lparr>to_Status := (to_Status (set_phase task TaskPhaseRunning))
                              \<lparr>tk_ConsecutiveFailures := 0\<rparr>\<rparr>)
                        ConditionFalse ''Resumed'' ''Task resumed from paused state'')
                     requeue
                 else finish None task))"

section \<open>The match procedure as the specification words it\<close>

text \<open>
  The four steps of the specification's match procedure, written from its words over the
  rules of the compiled table, to be compared with \<open>handleInvoke_route\<close>.
  \<open>regex_matches p s\<close> says that the pattern \<open>p\<close> matches the string \<open>s\<close>.
  The procedure ends in the use of a rule with its ready backends, or in one of the two
  rejections.
\<close>

datatype spec_outcome =
  UseRule string "CompiledRouteBackend list" | RejectBadRequest | RejectNotFound
  | RejectOther nat

definition spec_has_ready :: "CompiledRouteRule \<Rightarrow> bool" where
  "spec_has_ready r = list_ex Ready (Backends r)"

definition spec_criteria_hold :: "(string \<Rightarrow> string \<Rightarrow> bool) \<Rightarrow> CompiledRouteRule \<Rightarrow> MatchRequest
    \<Rightarrow> bool" where
  "spec_criteria_hold regex_matches r req =
     ((Agent (Match r) = [] \<or> Agent (Match r) = req_Agent req) \<and>
      (IntentRegex (Match r) = [] \<or> regex_matches (IntentRegex (Match r)) (req_Intent req)) \<and>
      (TenantID (Match r) = [] \<or> TenantID (Match r) = req_TenantID req) \<and>
      list_all (\<lambda>kv. header_get (req_Headers req) (fst kv) = snd kv) (Headers (Match r)))"

definition spec_use_rule :: "CompiledRouteRule \<Rightarrow> spec_outcome" where
  "spec_use_rule r = UseRule (Name r) (filter Ready (Backends r))"

definition spec_default_backend :: "RouteConfig \<Rightarrow> CompiledRouteBackend option" where
  "spec_default_backend cfg =
     (case Defaults cfg of
        None \<Rightarrow> None
      | Some d \<Rightarrow> (case Backend d of None \<Rightarrow> None | Some b \<Rightarrow> if Ready b then Some b else None))"

definition spec_no_match :: "RouteConfig \<Rightarrow> spec_outcome" where
  "spec_no_match cfg =
     (if (case Defaults cfg of None \<Rightarrow> False | Some d \<Rightarrow> RejectUnmatched d)
      then RejectBadRequest else RejectNotFound)"

definition spec_match_procedure :: "(string \<Rightarrow> string \<Rightarrow> bool) \<Rightarrow> RouteConfig \<Rightarrow> MatchRequest
    \<Rightarrow> spec_outcome" where
  "spec_match_procedure regex_matches cfg req =
     (case (if req_Agent req \<noteq> []
            then find (\<lambda>r. Agent (Match r) = req_Agent req \<and> spec_has_ready r) (Rules cfg)
            else None) of
        Some r \<Rightarrow> spec_use_rule r
      | None \<Rightarrow>
          (case find (\<lambda>r. spec_criteria_hold regex_matches r req \<and> spec_has_ready r) (Rules cfg) of
             Some r \<Rightarrow> spec_use_rule r
           | None \<Rightarrow>
               (case spec_default_backend cfg of
                  Some b \<Rightarrow> UseRule ''_default'' [b]
                | None \<Rightarrow> spec_no_match cfg)))"

text \<open>
  How an outcome of the gateway's routing step reads in these terms: status 400 is the
  bad-request rejection and status 404 the not-found one.
\<close>

definition outcome_class :: "route_outcome \<Rightarrow> spec_outcome" where
  "outcome_class r =
     (case r of
        Routed m \<Rightarrow> UseRule (RuleName m) (res_Backends m)
      | Rejected code msg \<Rightarrow>
          if code = 400 then RejectBadRequest
          else if code = 404 then RejectNotFound
          else RejectOther code)"

text \<open>A pattern matches a string when it compiles and the compiled expression matches.\<close>

definition regex_matches_of :: "(string \<Rightarrow> 're option) \<Rightarrow> ('re \<Rightarrow> string \<Rightarrow> bool) \<Rightarrow> string \<Rightarrow> string
    \<Rightarrow> bool" where
  "regex_matches_of regexp_Compile MatchString p s =
     (case regexp_Compile p of None \<Rightarrow> False | Some re \<Rightarrow> MatchString re s)"

text \<open>What the compilation loop of \<open>LoadFromJSON\<close> stores for one rule.\<close>

definition mk_compiled :: "(string \<Rightarrow> 're option) \<Rightarrow> CompiledRouteRule \<Rightarrow> 're compiledRule" where
  "mk_compiled regexp_Compile r =
     \<lparr>rule = r,
      intentRegex = (if IntentRegex (Match r) \<noteq> [] then regexp_Compile (IntentRegex (Match r))
                     else None)\<rparr>"

section \<open>\<open>sort.Slice\<close>\<close>

text \<open>
  The documentation of \<open>sort.Slice\<close>: it sorts the slice given the \<open>less\<close> function,
  and the sort is not guaranteed to be stable. \<open>sorts_by sort_Slice lt xs\<close> says that
  the call on \<open>xs\<close> kept the elements and left no later element less than an earlier
  one.
\<close>

definition sorts_by :: "(('a \<Rightarrow> 'a \<Rightarrow> bool) \<Rightarrow> 'a list \<Rightarrow> 'a list) \<Rightarrow> ('a \<Rightarrow> 'a \<Rightarrow> bool) \<Rightarrow> 'a list
    \<Rightarrow> bool" where
  "sorts_by sort_Slice lt xs =
     (mset (sort_Slice lt xs) = mset xs \<and> sorted_wrt (\<lambda>a b. \<not> lt b a) (sort_Slice lt xs))"

subsection \<open>The sort of the Go library\<close>

text \<open>
  Since Go 1.19, \<open>sort.Slice\<close> runs \<open>pdqsort_func\<close> of package \<open>sort\<close> on the whole
  slice, a quicksort that works in place through \<open>data.Less(i, j)\<close> and
  \<open>data.Swap(i, j)\<close>. The functions below follow it on a slice of fewer than 50
  elements all of whose partitions are balanced (neither side shorter than an eighth
  of the range): a range of at most 12 elements is sorted by insertion; of a longer
  range the pivot is the median of the elements at one, two and three quarters; a
  range that was found in order, when none of the three had to be exchanged and the
  last partition moved nothing, is left as it is; a range whose pivot is not greater
  than the element before the range is split into the elements equal to the pivot and
  the greater ones; any other range is partitioned around the pivot, and both sides
  are sorted.

  Not followed are the measures the library takes beyond that: the median of medians
  for 50 elements and more, the shifting of elements by \<open>partialInsertionSort_func\<close>
  for 50 elements and more, the scattering of three elements after an unbalanced
  partition (\<open>breakPatterns_func\<close>) and the heap sort after too many of them. The
  slices sorted below have at most 13 elements and no unbalanced partition.
\<close>

definition data_Less :: "('a \<Rightarrow> 'a \<Rightarrow> bool) \<Rightarrow> 'a list \<Rightarrow> int \<Rightarrow> int \<Rightarrow> bool" where
  "data_Less lt xs i j = lt (xs ! nat i) (xs ! nat j)"

definition data_Swap :: "int \<Rightarrow> int \<Rightarrow> 'a list \<Rightarrow> 'a list" where
  "data_Swap i j xs = xs[nat i := xs ! nat j, nat j := xs ! nat i]"

text \<open>
  \<open>insertionSort_func\<close>: \<open>for i := a + 1; i < b; i++\<close> around
  \<open>for j := i; j > a && data.Less(j, j-1); j--\<close>, which swaps \<open>j\<close> and \<open>j-1\<close>.
\<close>

function insertion_inner :: "('a \<Rightarrow> 'a \<Rightarrow> bool) \<Rightarrow> int \<Rightarrow> int \<Rightarrow> 'a list \<Rightarrow> 'a list" where
  "insertion_inner lt a j xs =
     (if a < j \<and> data_Less lt xs j (j - 1)
      then insertion_inner lt a (j - 1) (data_Swap j (j - 1) xs)
      else xs)"
  by pat_completeness auto
termination
  by (relation "measure (\<lambda>(lt, a, j, xs). nat (j - a))") auto

declare insertion_inner.simps [simp del]

function insertion_outer :: "('a \<Rightarrow> 'a \<Rightarrow> bool) \<Rightarrow> int \<Rightarrow> int \<Rightarrow> int \<Rightarrow> 'a list \<Rightarrow> 'a list" where
  "insertion_outer lt a b i xs =
     (if i < b then insertion_outer lt a b (i + 1) (insertion_inner lt a i xs) else xs)"
  by pat_completeness auto
termination
  by (relation "measure (\<lambda>(lt, a, b, i, xs). nat (b - i))") auto

declare insertion_outer.simps [simp del]

definition insertionSort_func :: "('a \<Rightarrow> 'a \<Rightarrow> bool) \<Rightarrow> int \<Rightarrow> int \<Rightarrow> 'a list \<Rightarrow> 'a list" where
  "insertionSort_func lt a b xs = insertion_outer lt a b (a + 1) xs"

text \<open>
  \<open>order2_func\<close> and \<open>median_func\<close> return indices and count the exchanges in
  \<open>swaps\<close>; \<open>choosePivot_func\<close> returns the pivot and \<open>swaps\<close>, and the hint of the
  source is \<open>increasingHint\<close> when \<open>swaps\<close> is 0.
\<close>

definition order2_func :: "('a \<Rightarrow> 'a \<Rightarrow> bool) \<Rightarrow> 'a list \<Rightarrow> int \<Rightarrow> int \<Rightarrow> nat \<Rightarrow> int \<times> int \<times> nat" where
  "order2_func lt xs a b swaps =
     (if data_Less lt xs b a then (b, a, swaps + 1) else (a, b, swaps))"

definition median_func :: "('a \<Rightarrow> 'a \<Rightarrow> bool) \<Rightarrow> 'a list \<Rightarrow> int \<Rightarrow> int \<Rightarrow> int \<Rightarrow> nat \<Rightarrow> int \<times> nat" where
  "median_func lt xs a b c swaps =
     (case order2_func lt xs a b swaps of (a, b, swaps) \<Rightarrow>
      case order2_func lt xs b c swaps of (b, c, swaps) \<Rightarrow>
      case order2_func lt xs a b swaps of (a, b, swaps) \<Rightarrow> (b, swaps))"

definition choosePivot_func :: "('a \<Rightarrow> 'a \<Rightarrow> bool) \<Rightarrow> 'a list \<Rightarrow> int \<Rightarrow> int \<Rightarrow> int \<times> nat" where
  "choosePivot_func lt xs a b =
     (let l = b - a;
          i = a + l div 4 * 1;
          j = a + l div 4 * 2;
          k = a + l div 4 * 3
      in if 8 \<le> l then median_func lt xs i j k 0 else (j, 0))"

text \<open>
  \<open>partialInsertionSort_func\<close> on fewer than 50 elements moves nothing: it reports
  whether no element of the range is less than the one before it.
\<close>

function first_descent :: "('a \<Rightarrow> 'a \<Rightarrow> bool) \<Rightarrow> 'a list \<Rightarrow> int \<Rightarrow> int \<Rightarrow> int" where
  "first_descent lt xs b i =
     (if i < b \<and> \<not> data_Less lt xs i (i - 1) then first_descent lt xs b (i + 1) else i)"
  by pat_completeness auto
termination
  by (relation "measure (\<lambda>(lt, xs, b, i). nat (b - i))") auto

declare first_descent.simps [simp del]

definition partialInsertionSort_func :: "('a \<Rightarrow> 'a \<Rightarrow> bool) \<Rightarrow> 'a list \<Rightarrow> int \<Rightarrow> int \<Rightarrow> bool" where
  "partialInsertionSort_func lt xs a b = (first_descent lt xs b (a + 1) = b)"

text \<open>
  The two inner loops of a partition, \<open>for i <= j && p(i) { i++ }\<close> and
  \<open>for i <= j && p(j) { j-- }\<close>.
\<close>

function scan_up :: "(int \<Rightarrow> bool) \<Rightarrow> int \<Rightarrow> int \<Rightarrow> int" where
  "scan_up p i j = (if i \<le> j \<and> p i then scan_up p (i + 1) j else i)"
  by pat_completeness auto
termination
  by (relation "measure (\<lambda>(p, i, j). nat (j + 1 - i))") auto

function scan_down :: "(int \<Rightarrow> bool) \<Rightarrow> int \<Rightarrow> int \<Rightarrow> int" where
  "scan_down p i j = (if i \<le> j \<and> p j then scan_down p i (j - 1) else j)"
  by pat_completeness auto
termination
  by (relation "measure (\<lambda>(p, i, j). nat (j + 1 - i))") auto

declare scan_up.simps [simp del] scan_down.simps [simp del]

lemma scan_up_ge: "i \<le> scan_up p i j"
proof (induction p i j rule: scan_up.induct)
  case (1 p i j)
  show ?case
  proof (cases "i \<le> j \<and> p i")
    case True
    with 1 have "i + 1 \<le> scan_up p (i + 1) j" by simp
    moreover from True have "scan_up p i j = scan_up p (i + 1) j"
      by (subst scan_up.simps) simp
    ultimately show ?thesis by simp
  next
    case False
    then have "scan_up p i j = i" by (subst scan_up.simps) auto
    then show ?thesis by simp
  qed
qed

lemma scan_down_le: "scan_down p i j \<le> j"
proof (induction p i j rule: scan_down.induct)
  case (1 p i j)
  show ?case
  proof (cases "i \<le> j \<and> p j")
    case True
    with 1 have "scan_down p i (j - 1) \<le> j - 1" by simp
    moreover from True have "scan_down p i j = scan_down p i (j - 1)"
      by (subst scan_down.simps) simp
    ultimately show ?thesis by simp
  next
    case False
    then have "scan_down p i j = j" by (subst scan_down.simps) auto
    then show ?thesis by simp
  qed
qed

text \<open>
  The loop \<open>for { ... }\<close> of \<open>partition_func\<close>, with the pivot at \<open>a\<close>; it returns the
  slice and \<open>j\<close> at the \<open>break\<close>.
\<close>

function partition_loop :: "('a \<Rightarrow> 'a \<Rightarrow> bool) \<Rightarrow> int \<Rightarrow> int \<Rightarrow> int \<Rightarrow> 'a list \<Rightarrow> 'a list \<times> int" where
  "partition_loop lt a i j xs =
     (let i' = scan_up (\<lambda>i. data_Less lt xs i a) i j;
          j' = scan_down (\<lambda>j. \<not> data_Less lt xs j a) i' j
      in if j' < i' then (xs, j')
         else partition_loop lt a (i' + 1) (j' - 1) (data_Swap i' j' xs))"
  by pat_completeness auto
termination
proof (relation "measure (\<lambda>(lt, a, i, j, xs). nat (j + 1 - i))")
  fix lt :: "'a \<Rightarrow> 'a \<Rightarrow> bool" and a i j :: int and xs :: "'a list" and i' j' :: int
  assume i': "i' = scan_up (\<lambda>i. data_Less lt xs i a) i j"
    and j': "j' = scan_down (\<lambda>j. \<not> data_Less lt xs j a) i' j"
    and n: "\<not> j' < i'"
  have "i \<le> i'" unfolding i' by (rule scan_up_ge)
  moreover have "j' \<le> j" unfolding j' by (rule scan_down_le)
  ultimately show "((lt, a, i' + 1, j' - 1, data_Swap i' j' xs), (lt, a, i, j, xs))
      \<in> measure (\<lambda>(lt, a, i, j, xs). nat (j + 1 - i))"
    using n by simp
qed simp

text \<open>
  \<open>partition_func\<close> returns the slice, the new place of the pivot, and
  \<open>alreadyPartitioned\<close>.
\<close>

declare partition_loop.simps [simp del]

definition partition_func :: "('a \<Rightarrow> 'a \<Rightarrow> bool) \<Rightarrow> 'a list \<Rightarrow> int \<Rightarrow> int \<Rightarrow> int
    \<Rightarrow> 'a list \<times> int \<times> bool" where
  "partition_func lt xs0 a b pivot =
     (let xs = data_Swap a pivot xs0;
          i = scan_up (\<lambda>i. data_Less lt xs i a) (a + 1) (b - 1);
          j = scan_down (\<lambda>j. \<not> data_Less lt xs j a) i (b - 1)
      in if j < i then (data_Swap j a xs, j, True)
         else (case partition_loop lt a (i + 1) (j - 1) (data_Swap i j xs) of
                 (xs', j') \<Rightarrow> (data_Swap j' a xs', j', False)))"

text \<open>
  \<open>partitionEqual_func\<close>, for a range that holds no element less than the pivot: it
  returns the slice and the index behind the elements equal to the pivot.
\<close>

function partitionEqual_loop :: "('a \<Rightarrow> 'a \<Rightarrow> bool) \<Rightarrow> int \<Rightarrow> int \<Rightarrow> int \<Rightarrow> 'a list \<Rightarrow> 'a list \<times> int" where
  "partitionEqual_loop lt a i j xs =
     (let i' = scan_up (\<lambda>i. \<not> data_Less lt xs a i) i j;
          j' = scan_down (\<lambda>j. data_Less lt xs a j) i' j
      in if j' < i' then (xs, i')
         else partitionEqual_loop lt a (i' + 1) (j' - 1) (data_Swap i' j' xs))"
  by pat_completeness auto
termination
proof (relation "measure (\<lambda>(lt, a, i, j, xs). nat (j + 1 - i))")
  fix lt :: "'a \<Rightarrow> 'a \<Rightarrow> bool" and a i j :: int and xs :: "'a list" and i' j' :: int
  assume i': "i' = scan_up (\<lambda>i. \<not> data_Less lt xs a i) i j"
    and j': "j' = scan_down (\<lambda>j. data_Less lt xs a j) i' j"
    and n: "\<not> j' < i'"
  have "i \<le> i'" unfolding i' by (rule scan_up_ge)
  moreover have "j' \<le> j" unfolding j' by (rule scan_down_le)
  ultimately show "((lt, a, i' + 1, j' - 1, data_Swap i' j' xs), (lt, a, i, j, xs))
      \<in> measure (\<lambda>(lt, a, i, j, xs). nat (j + 1 - i))"
    using n by simp
qed simp

declare partitionEqual_loop.simps [simp del]

definition partitionEqual_func :: "('a \<Rightarrow> 'a \<Rightarrow> bool) \<Rightarrow> 'a list \<Rightarrow> int \<Rightarrow> int \<Rightarrow> int
    \<Rightarrow> 'a list \<times> int" where
  "partitionEqual_func lt xs a b pivot =
     partitionEqual_loop lt a (a + 1) (b - 1) (data_Swap a pivot xs)"

text \<open>
  \<open>pdqsort_func\<close> on \<open>data[a:b]\<close>. The loop of the source goes on with the longer side
  of a partition after a call of itself on the shorter one; here both are calls, and
  \<open>wasPartitioned\<close> is passed to the one that stands for the next round of the loop.
  The first argument bounds the number of partitions on a path; every partition takes
  at least one element out of the range, so the length of the slice is enough.
\<close>

fun pdqsort_func :: "nat \<Rightarrow> ('a \<Rightarrow> 'a \<Rightarrow> bool) \<Rightarrow> int \<Rightarrow> int \<Rightarrow> bool \<Rightarrow> 'a list \<Rightarrow> 'a list" where
  "pdqsort_func 0 lt a b wasPartitioned xs = xs"
| "pdqsort_func (Suc n) lt a b wasPartitioned xs =
     (if b - a \<le> 12 then insertionSort_func lt a b xs
      else case choosePivot_func lt xs a b of (pivot, swaps) \<Rightarrow>
        if wasPartitioned \<and> swaps = 0 \<and> partialInsertionSort_func lt xs a b then xs
        else if 0 < a \<and> \<not> data_Less lt xs (a - 1) pivot then
          (case partitionEqual_func lt xs a b pivot of
             (xs', mid) \<Rightarrow> pdqsort_func n lt mid b wasPartitioned xs')
        else
          (case partition_func lt xs a b pivot of
             (xs', mid, alreadyPartitioned) \<Rightarrow>
               if mid - a < b - mid
               then pdqsort_func n lt (mid + 1) b alreadyPartitioned
                      (pdqsort_func n lt a mid True xs')
               else pdqsort_func n lt a mid alreadyPartitioned
                      (pdqsort_func n lt (mid + 1) b True xs')))"

declare pdqsort_func.simps [simp del]

definition go_sort_Slice :: "('a \<Rightarrow> 'a \<Rightarrow> bool) \<Rightarrow> 'a list \<Rightarrow> 'a list" where
  "go_sort_Slice lt xs = pdqsort_func (Suc (length xs)) lt 0 (int (length xs)) True xs"

subsection \<open>The order the specification describes\<close>

text \<open>
  The priority of a rule of the Route, 0 when it is not given, and the rules by
  priority, highest first, rules of equal priority in the order of the Route
  (\<open>sort_key\<close> is a stable sort).
\<close>

definition route_priority :: "RouteRule \<Rightarrow> int32" where
  "route_priority r = (case rr_Priority r of None \<Rightarrow> 0 | Some p \<Rightarrow> p)"

definition by_priority_stable :: "RouteRule list \<Rightarrow> RouteRule list" where
  "by_priority_stable rules = sort_key (\<lambda>r. - sint (route_priority r)) rules"

section \<open>The backends of a Route\<close>

text \<open>
  The Agents a Route refers to: the backends of its rules, then its default backend.
  A reference without a namespace means the namespace of the Route. A backend is ready
  when the Agent can be fetched and its status says ready.
\<close>

definition route_refs :: "RouteObj \<Rightarrow> AgentRef list" where
  "route_refs route =
     concat (map (\<lambda>r. map rb_AgentRef (rr_Backends r)) (rs_Rules (ro_Spec route))) @
     (case rs_Defaults (ro_Spec route) of
        None \<Rightarrow> []
      | Some d \<Rightarrow> (case rd_Backend d of None \<Rightarrow> [] | Some b \<Rightarrow> [rb_AgentRef b]))"

definition backend_ready :: "route_world \<Rightarrow> RouteObj \<Rightarrow> AgentRef \<Rightarrow> bool" where
  "backend_ready w route ref =
     (case rw_agent w (if ref_Namespace ref = [] then ro_Namespace route else ref_Namespace ref)
             (ref_Name ref) of
        None \<Rightarrow> False
      | Some (agent_ready, agent_endpoint) \<Rightarrow> agent_ready)"

definition all_backends_ready :: "route_world \<Rightarrow> RouteObj \<Rightarrow> bool" where
  "all_backends_ready w route = list_all (backend_ready w route) (route_refs route)"

section \<open>Concrete inputs\<close>

text \<open>
  The standard-library parameters at concrete inputs. \<open>literal_Compile\<close> and
  \<open>literal_MatchString\<close> are a regular-expression engine for patterns without
  metacharacters: such a pattern compiles to itself and matches the strings it occurs
  in, as in Go. Patterns with metacharacters are outside this engine and refused; of
  these the examples use only \<open>(\<close>, which Go refuses as well.
  \<open>example_Unmarshal\<close> stands for \<open>json.Unmarshal\<close> on two route files, whose
  bytes are abbreviated by a label each, and refuses every other input, as
  \<open>json.Unmarshal\<close> refuses the truncated document \<open>{\<close>.
\<close>

definition literal_Compile :: "string \<Rightarrow> string option" where
  "literal_Compile p = (if list_ex (\<lambda>c. c \<in> set ''.+*?()|[]{}^$'') p then None else Some p)"

definition literal_MatchString :: "string \<Rightarrow> string \<Rightarrow> bool" where
  "literal_MatchString re s = (strings_Index s re \<noteq> - 1)"

definition example_backend :: "string \<Rightarrow> bool \<Rightarrow> CompiledRouteBackend" where
  "example_backend a rdy =
     \<lparr>AgentName = a, Namespace = ''ns'', Endpoint = a @ ''.ns.svc.cluster.local:8080'',
      Weight = 100, Ready = rdy\<rparr>"

definition example_rule :: "string \<Rightarrow> int32 \<Rightarrow> string \<Rightarrow> string \<Rightarrow> CompiledRouteBackend list
    \<Rightarrow> CompiledRouteRule" where
  "example_rule n p a re bs =
     \<lparr>Name = n, Priority = p,
      Match = \<lparr>Agent = a, IntentRegex = re, TenantID = [], Headers = []\<rparr>, Backends = bs\<rparr>"

definition example_config :: RouteConfig where
  "example_config =
     \<lparr>Rules = [example_rule ''by-agent'' 20 ''alpha'' [] [example_backend ''alpha'' False],
               example_rule ''by-intent'' 10 [] ''cost''
                 [example_backend ''a1'' True, example_backend ''a2'' False]],
      Defaults = Some \<lparr>Backend = Some (example_backend ''fallback'' True), MaxConcurrent = 100,
                       MaxQueueSize = 50, QueueTimeoutMs = 30000, RequestTimeoutMs = 300000,
                       RejectUnmatched = False\<rparr>\<rparr>"

definition broken_config :: RouteConfig where
  "broken_config =
     \<lparr>Rules = [example_rule ''ok'' 20 ''alpha'' [] [example_backend ''alpha'' True],
               example_rule ''bad'' 10 [] ''('' [example_backend ''a1'' True]],
      Defaults = None\<rparr>"

definition example_Unmarshal :: "string \<Rightarrow> RouteConfig option" where
  "example_Unmarshal data =
     (if data = ''routes.json: example'' then Some example_config
      else if data = ''routes.json: broken'' then Some broken_config
      else None)"

definition example_request :: "string \<Rightarrow> string \<Rightarrow> MatchRequest" where
  "example_request a i = \<lparr>req_Agent = a, req_Intent = i, req_TenantID = [], req_Headers = []\<rparr>"

definition loaded_example :: "string Table" where
  "loaded_example =
     snd (LoadFromJSON example_Unmarshal literal_Compile NewTable ''routes.json: example'')"

definition example_breaker :: "int32 \<Rightarrow> int32 \<Rightarrow> nat \<Rightarrow> Breaker" where
  "example_breaker a q tokens =
     \<lparr>b_route = ''r'', maxConcurrent = 1, maxQueue = 1, queueTimeout = Second,
      active = a, waiting = q, waitChan = tokens, waitChan_cap = 2\<rparr>"

text \<open>
  \<open>example_json_Unmarshal\<close> decodes the three worker replies of the examples and
  refuses every other body, as \<open>json.Unmarshal\<close> refuses \<open>plain text\<close>;
  \<open>scalar_MarshalIndent\<close> is \<open>json.MarshalIndent\<close> on \<open>null\<close> and the booleans,
  the only values the examples encode.
\<close>

definition example_json_Unmarshal :: "string \<Rightarrow> json option" where
  \<open>example_json_Unmarshal body =
     (if body = ''{"response":"hi"}'' then Some (JObject [(''response'', JString ''hi'')])
      else if body = ''{"result":null,"response":"hi"}''
        then Some (JObject [(''result'', JNull), (''response'', JString ''hi'')])
      else if body = ''{"output":"done","n":1}''
        then Some (JObject [(''output'', JString ''done''), (''n'', JNumber ''1'')])
      else None)\<close>

definition scalar_MarshalIndent :: "json \<Rightarrow> string" where
  "scalar_MarshalIndent v =
     (case v of JBool b \<Rightarrow> (if b then ''true'' else ''false'') | _ \<Rightarrow> ''null'')"

text \<open>
  An Agent \<open>alpha\<close> in the namespace \<open>ns\<close>, one replica wanted, and a cluster in which
  every call succeeds and the deployment reports the given number of ready replicas.
\<close>

definition example_agent :: AgentObj where
  "example_agent =
     \<lparr>ag_Name = ''alpha'', ag_Namespace = ''ns'', ag_Generation = 1,
      ag_Spec = \<lparr>spec_Replicas = None, spec_Tools = [], spec_ToolPackages = [],
                 spec_ServiceAccountName = []\<rparr>,
      ag_Status = \<lparr>as_Ready = False, as_Endpoint = [], as_AvailableReplicas = 0,
                   as_ConfigHash = [], as_AvailableTools = [], as_ObservedGeneration = 0,
                   as_Conditions = []\<rparr>\<rparr>"

definition example_agent_world :: "int32 \<Rightarrow> agent_world" where
  "example_agent_world ready_replicas =
     \<lparr>aw_get = Inr example_agent, aw_tool = (\<lambda>ns n. Inr True), aw_serviceaccount = None,
      aw_configmap = Inr ''9f86d081884c7d65'', aw_deployment = None, aw_service = None,
      aw_get_deployment = Inr ready_replicas, aw_status_update = None\<rparr>"

text \<open>
  A Route with two rules of equal priority, \<open>first\<close> before \<open>second\<close>, whose
  backends \<open>alpha\<close> and \<open>beta\<close> are ready Agents; the intent pattern of the
  first rule is a parameter. Every call of the reconciliation succeeds.
\<close>

definition example_route_rule :: "string \<Rightarrow> int32 option \<Rightarrow> string \<Rightarrow> string \<Rightarrow> RouteRule" where
  "example_route_rule n p re a =
     \<lparr>rr_Name = n, rr_Priority = p,
      rr_Match = \<lparr>rm_Agent = [], rm_IntentRegex = re, rm_TenantID = [], rm_Headers = []\<rparr>,
      rr_Backends = [\<lparr>rb_AgentRef = \<lparr>ref_Name = a, ref_Namespace = []\<rparr>, rb_Weight = None\<rparr>]\<rparr>"

definition example_route :: "string \<Rightarrow> RouteObj" where
  "example_route re =
     \<lparr>ro_Name = ''r'', ro_Namespace = ''ns'', ro_Generation = 1,
      ro_Spec = \<lparr>rs_Rules = [example_route_rule ''first'' (Some 10) re ''alpha'',
                            example_route_rule ''second'' (Some 10) ''docs'' ''beta''],
                 rs_Defaults = None\<rparr>,
      ro_Status = \<lparr>rt_Ready = False, rt_ActiveRules = 0, rt_Backends = [],
                   rt_CompiledConfigMap = [], rt_ObservedGeneration = 0, rt_Conditions = []\<rparr>\<rparr>"

definition example_route_world :: "string \<Rightarrow> route_world" where
  "example_route_world re =
     \<lparr>rw_get = Inr (example_route re),
      rw_agent = (\<lambda>ns n. Some (True, n @ ''.'' @ ns @ ''.svc.cluster.local:8080'')),
      rw_configmap = None, rw_status_update = None\<rparr>"

text \<open>
  The same cluster with the Agent \<open>beta\<close> not ready.
\<close>

definition example_route_world_unready :: "string \<Rightarrow> route_world" where
  "example_route_world_unready re =
     \<lparr>rw_get = Inr (example_route re),
      rw_agent = (\<lambda>ns n. Some (n \<noteq> ''beta'', n @ ''.'' @ ns @ ''.svc.cluster.local:8080'')),
      rw_configmap = None, rw_status_update = None\<rparr>"

text \<open>
  Two more lists of rules, all with the backend \<open>alpha\<close>: three rules of different
  priorities, the second without one, and thirteen rules of which the first twelve
  have the priority 10 and the last has the priority 20. \<open>route_with_rules\<close> is the
  example Route with the given rules, \<open>world_with\<close> the example cluster holding the
  given Route.
\<close>

definition example_rules3 :: "RouteRule list" where
  "example_rules3 =
     [example_route_rule ''mid'' (Some 10) ''docs'' ''alpha'',
      example_route_rule ''low'' None ''docs'' ''alpha'',
      example_route_rule ''high'' (Some 30) ''docs'' ''alpha'']"

definition example_rules13 :: "RouteRule list" where
  "example_rules13 =
     map (\<lambda>n. example_route_rule n (Some 10) ''docs'' ''alpha'')
       [''a'', ''b'', ''c'', ''d'', ''e'', ''f'', ''g'', ''h'', ''i'', ''j'', ''k'', ''l'']
     @ [example_route_rule ''m'' (Some 20) ''docs'' ''alpha'']"

definition route_with_rules :: "RouteRule list \<Rightarrow> RouteObj" where
  "route_with_rules rules =
     (example_route [])\<lparr>ro_Spec := \<lparr>rs_Rules = rules, rs_Defaults = None\<rparr>\<rparr>"

definition world_with :: "RouteObj \<Rightarrow> route_world" where
  "world_with r = (example_route_world [])\<lparr>rw_get := Inr r\<rparr>"

text \<open>
  A Task that has its finalizer and is not being deleted, in a given phase and with a
  given \<open>spec.paused\<close>; a cluster in which every call succeeds, the orchestration Job
  has succeeded and its pod has written the given log; a decoder for the two result
  payloads of the examples; and two logs of 1001 lines.
\<close>

definition example_task :: "TaskPhase \<Rightarrow> bool \<Rightarrow> TaskObj" where
  "example_task phase paused =
     \<lparr>to_Name = ''t'', to_Namespace = ''ns'', to_Generation = 1, to_DeletionTimestamp = None,
      to_Finalizers = [taskFinalizer], to_Annotations = [],
      to_Spec = \<lparr>ts_Paused = paused, ts_Limits = None, ts_GitURL = None\<rparr>,
      to_Status = \<lparr>tk_Phase = phase, tk_CurrentIteration = 0, tk_CompletedTasks = 0,
                   tk_TotalTasks = 0, tk_ConsecutiveFailures = 0, tk_StartedAt = None,
                   tk_CompletedAt = None, tk_RecentIterations = [], tk_RepositoryURL = [],
                   tk_LastCommitSHA = [], tk_PullRequestURL = [], tk_Message = [],
                   tk_ObservedGeneration = 0, tk_Conditions = []\<rparr>\<rparr>"

definition example_result :: "bool \<Rightarrow> OrchestratorResult" where
  "example_result passed =
     \<lparr>or_Passed = passed, or_CompletedTasks = 0, or_TotalTasks = 0, or_Iterations = 0,
      or_Learnings = [], or_CommitSHA = [], or_PullRequestURL = [], or_PRD = [],
      or_Error = [], or_NoChanges = False, or_Pushed = False, or_GitError = []\<rparr>"

definition example_result_Unmarshal :: "string \<Rightarrow> OrchestratorResult option" where
  \<open>example_result_Unmarshal s =
     (if s = ''{"passed":true}'' then Some (example_result True)
      else if s = ''{"passed":false}'' then Some (example_result False)
      else None)\<close>

definition task_world_of :: "TaskObj \<Rightarrow> string list \<Rightarrow> task_world" where
  "task_world_of task lg =
     \<lparr>tw_get = Inr task, tw_now = 1000, tw_update = None, tw_status_update = None,
      tw_orchestrator = None, tw_worker = None, tw_pvc = None, tw_task_source = Inr [],
      tw_countTasksInPRD = (\<lambda>prd. 0), tw_render_job = None, tw_controller_ref = None,
      tw_create_job = None,
      tw_get_job = Inr \<lparr>job_Succeeded = 1, job_Failed = 0, job_Conditions = []\<rparr>,
      tw_clientset = True, tw_list_pods = Inr 1, tw_container_log = Inr lg,
      tw_scan_error = False, tw_Unmarshal = example_result_Unmarshal,
      tw_Sscanf = (\<lambda>v. 0), tw_Sprintf = (\<lambda>n. ''0''), tw_Duration_String = (\<lambda>d. ''24h0m0s'')\<rparr>"



section \<open>Status conditions\<close>

text \<open>After \<open>SetStatusCondition\<close>, the condition of that type is the one just set.\<close>

lemma FindStatusCondition_Set:
  "FindStatusCondition (SetStatusCondition cs c) (cond_Type c) = Some c"
  by (induction cs) (auto simp: FindStatusCondition_def)


section \<open>The gateway route table: loading and matching\<close>

lemma filterReadyBackends_filter: "filterReadyBackends bs = filter Ready bs"
  by (induction bs) auto

lemma filter_empty_list_ex: "(filter P xs = []) = (\<not> list_ex P xs)"
  by (induction xs) auto

lemma headers_loop_all:
  "headers_loop kvs reqh = list_all (\<lambda>kv. header_get reqh (fst kv) = snd kv) kvs"
  by (induction kvs reqh rule: headers_loop.induct) auto

text \<open>A load that succeeds stores one compiled rule per rule, and every pattern compiled.\<close>

lemma precompile_Inr:
  "precompile C rs acc = Inr cs \<Longrightarrow>
     cs = acc @ map (mk_compiled C) rs \<and>
     list_all (\<lambda>r. IntentRegex (Match r) = [] \<or> C (IntentRegex (Match r)) \<noteq> None) rs"
proof (induction rs arbitrary: acc)
  case Nil
  then show ?case by simp
next
  case (Cons r rs)
  show ?case
  proof (cases "IntentRegex (Match r) = []")
    case True
    with Cons.prems have "precompile C rs (acc @ [\<lparr>rule = r, intentRegex = None\<rparr>]) = Inr cs"
      by simp
    from Cons.IH [OF this] True show ?thesis
      by (simp add: mk_compiled_def)
  next
    case False
    with Cons.prems obtain re where re: "C (IntentRegex (Match r)) = Some re"
      and "precompile C rs (acc @ [\<lparr>rule = r, intentRegex = Some re\<rparr>]) = Inr cs"
      by (auto split: option.splits)
    from Cons.IH [OF this(2)] False re show ?thesis
      by (simp add: mk_compiled_def)
  qed
qed

text \<open>One pattern that does not compile makes the whole loop fail.\<close>

lemma precompile_Inl:
  "list_ex (\<lambda>r. IntentRegex (Match r) \<noteq> [] \<and> C (IntentRegex (Match r)) = None) rs \<Longrightarrow>
     \<exists>e. precompile C rs acc = Inl e"
  by (induction rs arbitrary: acc) (auto split: option.splits)

lemma agent_loop_find:
  "agent_loop (map (mk_compiled C) rs) req =
     map_option (\<lambda>r. \<lparr>RuleName = Name r, res_Backends = filter Ready (Backends r)\<rparr>)
       (find (\<lambda>r. Agent (Match r) = req_Agent req \<and> spec_has_ready r) rs)"
  by (induction rs)
     (simp_all add: mk_compiled_def filterReadyBackends_filter filter_empty_list_ex
        spec_has_ready_def Let_def)

lemma ruleMatches_spec:
  "IntentRegex (Match r) = [] \<or> C (IntentRegex (Match r)) \<noteq> None \<Longrightarrow>
   ruleMatches MS (mk_compiled C r) req = spec_criteria_hold (regex_matches_of C MS) r req"
  by (auto simp: ruleMatches_def mk_compiled_def spec_criteria_hold_def regex_matches_of_def
        headers_loop_all Let_def split: option.splits)

lemma rules_loop_find:
  "list_all (\<lambda>r. IntentRegex (Match r) = [] \<or> C (IntentRegex (Match r)) \<noteq> None) rs \<Longrightarrow>
   rules_loop MS (map (mk_compiled C) rs) req =
     map_option (\<lambda>r. \<lparr>RuleName = Name r, res_Backends = filter Ready (Backends r)\<rparr>)
       (find (\<lambda>r. spec_criteria_hold (regex_matches_of C MS) r req \<and> spec_has_ready r) rs)"
proof (induction rs)
  case Nil
  then show ?case by simp
next
  case (Cons r rs)
  then have m: "ruleMatches MS (mk_compiled C r) req =
      spec_criteria_hold (regex_matches_of C MS) r req"
    by (simp add: ruleMatches_spec)
  have r: "rule (mk_compiled C r) = r" by (simp add: mk_compiled_def)
  from Cons show ?case
    by (simp add: m r filterReadyBackends_filter filter_empty_list_ex spec_has_ready_def Let_def)
qed

text \<open>
  Claim C5. On a table that \<open>LoadFromJSON\<close> has loaded from a route file, the routing
  step of the gateway is the four-step procedure of the specification: with a non-empty
  request agent, the first rule whose match agent equals it and that has a ready backend
  wins; otherwise the first rule, in stored order, whose non-empty criteria all hold and
  that has a ready backend wins; otherwise the ready default backend is used under the
  rule name \<open>_default\<close>; otherwise the request is rejected, with 400 when
  \<open>rejectUnmatched\<close> is set and 404 when it is not. The winning rule is used with its
  ready backends.
\<close>

theorem Match_follows_spec_procedure:
  assumes "json_Unmarshal data = Some cfg"
    and "LoadFromJSON json_Unmarshal regexp_Compile t0 data = (None, t)"
  shows "outcome_class (handleInvoke_route MatchString t req) =
         spec_match_procedure (regex_matches_of regexp_Compile MatchString) cfg req"
proof -
  from assms obtain cs where pc: "precompile regexp_Compile (Rules cfg) [] = Inr cs"
    and t: "t = t0\<lparr>config := Some cfg, compiled := cs\<rparr>"
    by (auto simp: LoadFromJSON_def split: sum.splits)
  from precompile_Inr [OF pc] have cs: "cs = map (mk_compiled regexp_Compile) (Rules cfg)"
    and ok: "list_all (\<lambda>r. IntentRegex (Match r) = [] \<or>
                regexp_Compile (IntentRegex (Match r)) \<noteq> None) (Rules cfg)"
    by simp_all
  have ne: "find (\<lambda>r. P r \<and> spec_has_ready r) rs = Some r \<Longrightarrow> filter Ready (Backends r) \<noteq> []"
    for P rs r
    by (auto simp: find_Some_iff spec_has_ready_def list_ex_iff filter_empty_conv)
  show ?thesis
    unfolding handleInvoke_route_def no_match_response_def Table_Match_def GetDefaults_def t cs
    by (auto simp: agent_loop_find rules_loop_find [OF ok] spec_match_procedure_def
        spec_use_rule_def default_fallback_def spec_default_backend_def spec_no_match_def Let_def
        StatusBadRequest_def StatusNotFound_def outcome_class_def
        dest: ne split: option.splits)
qed

text \<open>
  The example table: the request names the agent \<open>alpha\<close>, whose rule has no ready
  backend, so the second step picks the intent rule and its one ready backend.
\<close>

theorem Match_follows_spec_procedure_witness:
  "example_Unmarshal ''routes.json: example'' = Some example_config \<and>
   LoadFromJSON example_Unmarshal literal_Compile NewTable ''routes.json: example'' =
     (None, \<lparr>config = Some example_config,
             compiled = [\<lparr>rule = Rules example_config ! 0, intentRegex = None\<rparr>,
                         \<lparr>rule = Rules example_config ! 1, intentRegex = Some ''cost''\<rparr>]\<rparr>) \<and>
   outcome_class (handleInvoke_route literal_MatchString
     \<lparr>config = Some example_config,
      compiled = [\<lparr>rule = Rules example_config ! 0, intentRegex = None\<rparr>,
                  \<lparr>rule = Rules example_config ! 1, intentRegex = Some ''cost''\<rparr>]\<rparr>
     (example_request ''alpha'' ''the cost report'')) =
   spec_match_procedure (regex_matches_of literal_Compile literal_MatchString) example_config
     (example_request ''alpha'' ''the cost report'') \<and>
   spec_match_procedure (regex_matches_of literal_Compile literal_MatchString) example_config
     (example_request ''alpha'' ''the cost report'') =
   UseRule ''by-intent'' [example_backend ''a1'' True]"
proof -
  have u: "example_Unmarshal ''routes.json: example'' = Some example_config"
    by (simp add: example_Unmarshal_def)
  have l: "LoadFromJSON example_Unmarshal literal_Compile NewTable ''routes.json: example'' =
     (None, \<lparr>config = Some example_config,
             compiled = [\<lparr>rule = Rules example_config ! 0, intentRegex = None\<rparr>,
                         \<lparr>rule = Rules example_config ! 1, intentRegex = Some ''cost''\<rparr>]\<rparr>)"
    by (simp add: LoadFromJSON_def example_Unmarshal_def example_config_def example_rule_def
        literal_Compile_def NewTable_def)
  have s: "spec_match_procedure (regex_matches_of literal_Compile literal_MatchString)
      example_config (example_request ''alpha'' ''the cost report'') =
    UseRule ''by-intent'' [example_backend ''a1'' True]"
    by (simp add: spec_match_procedure_def example_config_def example_rule_def
        example_request_def spec_has_ready_def example_backend_def spec_criteria_hold_def
        regex_matches_of_def literal_Compile_def literal_MatchString_def spec_use_rule_def)
  from Match_follows_spec_procedure
    [OF u l, of literal_MatchString "example_request ''alpha'' ''the cost report''"] u l s
  show ?thesis by simp
qed

text \<open>
  Claim C10. When the bytes do not parse as JSON, or the pattern of some rule does not
  compile, \<open>LoadFromJSON\<close> returns an error and the table (configuration and compiled
  rules) is the one before the call, so every match gives what it gave before.
\<close>

theorem LoadFromJSON_error_keeps_table:
  assumes "json_Unmarshal data = None \<or>
           (\<exists>cfg. json_Unmarshal data = Some cfg \<and>
                  list_ex (\<lambda>r. IntentRegex (Match r) \<noteq> [] \<and>
                               regexp_Compile (IntentRegex (Match r)) = None) (Rules cfg))"
  shows "fst (LoadFromJSON json_Unmarshal regexp_Compile t data) \<noteq> None \<and>
         snd (LoadFromJSON json_Unmarshal regexp_Compile t data) = t \<and>
         Table_Match MatchString (snd (LoadFromJSON json_Unmarshal regexp_Compile t data)) req =
           Table_Match MatchString t req"
proof -
  have "\<exists>e. LoadFromJSON json_Unmarshal regexp_Compile t data = (Some e, t)"
    using assms
  proof
    assume "json_Unmarshal data = None"
    then show ?thesis by (simp add: LoadFromJSON_def)
  next
    assume "\<exists>cfg. json_Unmarshal data = Some cfg \<and>
                  list_ex (\<lambda>r. IntentRegex (Match r) \<noteq> [] \<and>
                               regexp_Compile (IntentRegex (Match r)) = None) (Rules cfg)"
    then obtain cfg where c: "json_Unmarshal data = Some cfg"
      and b: "list_ex (\<lambda>r. IntentRegex (Match r) \<noteq> [] \<and>
                regexp_Compile (IntentRegex (Match r)) = None) (Rules cfg)"
      by blast
    from precompile_Inl [OF b, of "[]"]
    obtain e where "precompile regexp_Compile (Rules cfg) [] = Inl e"
      by blast
    with c show ?thesis by (simp add: LoadFromJSON_def)
  qed
  then show ?thesis by auto
qed

text \<open>
  Both failures on the loaded example table: a truncated document, and a route file
  whose second rule has the pattern \<open>(\<close>.
\<close>

theorem LoadFromJSON_error_keeps_table_witness:
  "example_Unmarshal ''{'' = None \<and>
   LoadFromJSON example_Unmarshal literal_Compile loaded_example ''{'' =
     (Some UnmarshalError, loaded_example) \<and>
   example_Unmarshal ''routes.json: broken'' = Some broken_config \<and>
   list_ex (\<lambda>r. IntentRegex (Match r) \<noteq> [] \<and> literal_Compile (IntentRegex (Match r)) = None)
     (Rules broken_config) \<and>
   LoadFromJSON example_Unmarshal literal_Compile loaded_example ''routes.json: broken'' =
     (Some (RegexpCompileError ''(''), loaded_example)"
proof -
  have a: "example_Unmarshal ''{'' = None" by (simp add: example_Unmarshal_def)
  have b: "example_Unmarshal ''routes.json: broken'' = Some broken_config"
    by (simp add: example_Unmarshal_def)
  have c: "list_ex (\<lambda>r. IntentRegex (Match r) \<noteq> [] \<and>
      literal_Compile (IntentRegex (Match r)) = None) (Rules broken_config)"
    by (simp add: broken_config_def example_rule_def literal_Compile_def)
  have e1: "fst (LoadFromJSON example_Unmarshal literal_Compile loaded_example ''{'') =
      Some UnmarshalError"
    by (simp add: LoadFromJSON_def a)
  have e2: "fst (LoadFromJSON example_Unmarshal literal_Compile loaded_example
      ''routes.json: broken'') = Some (RegexpCompileError ''('')"
    by (simp add: LoadFromJSON_def b broken_config_def example_rule_def literal_Compile_def)
  have r1: "snd (LoadFromJSON example_Unmarshal literal_Compile loaded_example ''{'') =
      loaded_example"
    using LoadFromJSON_error_keeps_table
      [of example_Unmarshal "''{''" literal_Compile loaded_example] a
    by blast
  have r2: "snd (LoadFromJSON example_Unmarshal literal_Compile loaded_example
      ''routes.json: broken'') = loaded_example"
    using LoadFromJSON_error_keeps_table
      [of example_Unmarshal "''routes.json: broken''" literal_Compile loaded_example] b c
    by blast
  from a b c e1 e2 r1 r2 show ?thesis
    by (simp add: prod_eq_iff)
qed

section \<open>The admission controller\<close>

text \<open>Below the limit, the increment of \<open>active\<close> does not wrap around.\<close>

lemma sint_succ_of_sless:
  fixes a m :: int32
  assumes "a <s m"
  shows "sint (a + 1) = sint a + 1"
proof -
  have "sint m < 2 ^ 31" using sint_lt [of m] by simp
  moreover have "sint a < sint m" using assms by (simp add: word_sless_alt)
  moreover have "- (2 ^ 31) \<le> sint a" using sint_ge [of a] by simp
  ultimately show ?thesis
    by (simp add: sint_word_ariths signed_take_bit_int_eq_self)
qed

lemma Acquire_iff:
  "Acquire w b res \<longleftrightarrow>
     (case Acquire_enter b of
        Returned e b' \<Rightarrow> res = (e, b')
      | Queued b1 \<Rightarrow> (\<exists>c. can_proceed w b1 c \<and> res = Acquire_exit c b1))"
  by (auto simp: Acquire.simps split: acquire_step.splits)

lemma select_case_ex: "(\<exists>c. P c) \<longleftrightarrow> P CtxDone \<or> P TimerFired \<or> P WakeReceived"
  by (metis select_case.exhaust)

text \<open>
  Claim C7. When \<open>active < maxConcurrent\<close>, \<open>Acquire\<close> returns nil and its only
  effect is \<open>active\<close> incremented by one (without wrap-around). When
  \<open>active \<ge> maxConcurrent\<close> and \<open>waiting \<ge> maxQueue\<close>, it returns \<open>ErrQueueFull\<close>
  and the breaker, both counters included, is unchanged. In both cases this is the only
  possible outcome of the call.
\<close>

theorem Acquire_capacity_and_queue_full:
  "(active b <s maxConcurrent b \<longrightarrow>
      (Acquire w b res \<longleftrightarrow> res = (None, b\<lparr>active := active b + 1\<rparr>)) \<and>
      sint (active b + 1) = sint (active b) + 1) \<and>
   (\<not> active b <s maxConcurrent b \<and> maxQueue b \<le>s waiting b \<longrightarrow>
      (Acquire w b res \<longleftrightarrow> res = (Some ErrQueueFull, b)))"
  by (auto simp: Acquire_iff Acquire_enter_def sint_succ_of_sless)

text \<open>
  A breaker with one slot and one queue place: idle, it admits; with the slot and the
  queue place taken, it refuses.
\<close>

theorem Acquire_capacity_and_queue_full_witness:
  "active (example_breaker 0 0 0) <s maxConcurrent (example_breaker 0 0 0) \<and>
   Acquire \<lparr>ctx_done = False, timer_fired = False\<rparr> (example_breaker 0 0 0)
     (None, example_breaker 1 0 0) \<and>
   \<not> active (example_breaker 1 1 0) <s maxConcurrent (example_breaker 1 1 0) \<and>
   maxQueue (example_breaker 1 1 0) \<le>s waiting (example_breaker 1 1 0) \<and>
   Acquire \<lparr>ctx_done = False, timer_fired = False\<rparr> (example_breaker 1 1 0)
     (Some ErrQueueFull, example_breaker 1 1 0)"
  using Acquire_capacity_and_queue_full
      [of "example_breaker 0 0 0" "\<lparr>ctx_done = False, timer_fired = False\<rparr>"
          "(None, example_breaker 1 0 0)"]
    Acquire_capacity_and_queue_full
      [of "example_breaker 1 1 0" "\<lparr>ctx_done = False, timer_fired = False\<rparr>"
          "(Some ErrQueueFull, example_breaker 1 1 0)"]
  by (simp add: example_breaker_def word_sle_eq word_sless_alt)

text \<open>
  Claim C8, as stated, fails: the three exits are the cases of one \<open>select\<close>, which has
  no priority among the cases that can proceed. On a breaker with one slot and one queue
  place, a first caller is admitted, a second is queued, the first releases (a wake token
  is sent), the second leaves by its timeout, and a third is admitted: the slot is taken
  and a token is left in the channel. The next caller is queued; its context is
  cancelled and its timer has fired. All three cases can proceed, and the wake case is a
  possible outcome: the cancelled caller is admitted.
\<close>

theorem cancelled_waiter_wake_counterexample:
  "New ''r'' \<lparr>cfg_MaxConcurrent = 1, cfg_MaxQueueSize = 1, cfg_QueueTimeout = Second\<rparr> =
     Some (example_breaker 0 0 0) \<and>
   Acquire_enter (example_breaker 0 0 0) = Returned None (example_breaker 1 0 0) \<and>
   Acquire_enter (example_breaker 1 0 0) = Queued (example_breaker 1 1 0) \<and>
   Release (example_breaker 1 1 0) = example_breaker 0 1 1 \<and>
   Acquire_exit TimerFired (example_breaker 0 1 1) =
     (Some ErrQueueTimeout, example_breaker 0 0 1) \<and>
   Acquire_enter (example_breaker 0 0 1) = Returned None (example_breaker 1 0 1) \<and>
   Acquire_enter (example_breaker 1 0 1) = Queued (example_breaker 1 1 1) \<and>
   can_proceed \<lparr>ctx_done = True, timer_fired = True\<rparr> (example_breaker 1 1 1) CtxDone \<and>
   can_proceed \<lparr>ctx_done = True, timer_fired = True\<rparr> (example_breaker 1 1 1) TimerFired \<and>
   can_proceed \<lparr>ctx_done = True, timer_fired = True\<rparr> (example_breaker 1 1 1) WakeReceived \<and>
   Acquire \<lparr>ctx_done = True, timer_fired = True\<rparr> (example_breaker 1 0 1)
     (None, example_breaker 2 0 0)"
proof -
  have n: "New ''r'' \<lparr>cfg_MaxConcurrent = 1, cfg_MaxQueueSize = 1, cfg_QueueTimeout = Second\<rparr> =
     Some (example_breaker 0 0 0)"
    by (simp add: New_def example_breaker_def Second_def word_sle_eq word_sless_alt)
  have tr: "Acquire_enter (example_breaker 0 0 0) = Returned None (example_breaker 1 0 0)"
    "Acquire_enter (example_breaker 1 0 0) = Queued (example_breaker 1 1 0)"
    "Release (example_breaker 1 1 0) = example_breaker 0 1 1"
    "Acquire_exit TimerFired (example_breaker 0 1 1) =
       (Some ErrQueueTimeout, example_breaker 0 0 1)"
    "Acquire_enter (example_breaker 0 0 1) = Returned None (example_breaker 1 0 1)"
    by (simp_all add: Acquire_enter_def Release_def Acquire_exit_def example_breaker_def
        word_sle_eq word_sless_alt)
  have e: "Acquire_enter (example_breaker 1 0 1) = Queued (example_breaker 1 1 1)"
    by (simp add: Acquire_enter_def example_breaker_def word_sle_eq word_sless_alt)
  have c: "can_proceed \<lparr>ctx_done = True, timer_fired = True\<rparr> (example_breaker 1 1 1)
      WakeReceived"
    by (simp add: can_proceed_def example_breaker_def)
  have x: "Acquire_exit WakeReceived (example_breaker 1 1 1) = (None, example_breaker 2 0 0)"
    by (simp add: Acquire_exit_def example_breaker_def)
  from Acquire.waited [OF e c] x e c n tr show ?thesis
    by (simp add: can_proceed_def)
qed

text \<open>
  Claim C8, amended. A queued caller (the slot pool is full and the queue is not) leaves
  through one of the cases of the \<open>select\<close> that can proceed, whichever it is: on
  cancellation it returns the context's error and on timeout \<open>ErrQueueTimeout\<close>, both
  with the breaker as it was before the call (\<open>waiting\<close> incremented, then decremented);
  on a wake token it returns nil with \<open>active\<close> incremented and the token consumed.
  Nothing orders the three.
\<close>

theorem Acquire_queued_exits:
  assumes "\<not> active b <s maxConcurrent b" and "\<not> maxQueue b \<le>s waiting b"
  shows "Acquire w b res \<longleftrightarrow>
           (ctx_done w \<and> res = (Some ContextErr, b)) \<or>
           (timer_fired w \<and> res = (Some ErrQueueTimeout, b)) \<or>
           (0 < waitChan b \<and>
            res = (None, b\<lparr>active := active b + 1, waitChan := waitChan b - 1\<rparr>))"
  using assms
  by (simp add: Acquire_iff Acquire_enter_def select_case_ex can_proceed_def Acquire_exit_def)

theorem Acquire_queued_exits_witness:
  "\<not> active (example_breaker 1 0 1) <s maxConcurrent (example_breaker 1 0 1) \<and>
   \<not> maxQueue (example_breaker 1 0 1) \<le>s waiting (example_breaker 1 0 1) \<and>
   Acquire \<lparr>ctx_done = True, timer_fired = True\<rparr> (example_breaker 1 0 1)
     (Some ContextErr, example_breaker 1 0 1) \<and>
   Acquire \<lparr>ctx_done = True, timer_fired = True\<rparr> (example_breaker 1 0 1)
     (Some ErrQueueTimeout, example_breaker 1 0 1) \<and>
   \<not> Acquire \<lparr>ctx_done = False, timer_fired = True\<rparr> (example_breaker 1 0 0)
     (None, example_breaker 2 0 0)"
  using Acquire_queued_exits
      [of "example_breaker 1 0 1" "\<lparr>ctx_done = True, timer_fired = True\<rparr>"
          "(Some ContextErr, example_breaker 1 0 1)"]
    Acquire_queued_exits
      [of "example_breaker 1 0 1" "\<lparr>ctx_done = True, timer_fired = True\<rparr>"
          "(Some ErrQueueTimeout, example_breaker 1 0 1)"]
    Acquire_queued_exits
      [of "example_breaker 1 0 0" "\<lparr>ctx_done = False, timer_fired = True\<rparr>"
          "(None, example_breaker 2 0 0)"]
  by (simp add: example_breaker_def word_sle_eq word_sless_alt)

section \<open>The dispatch forwarders\<close>

text \<open>
  Claim C6, as stated, fails on both forwarders. The HTTP API forwarder does not unwrap:
  for the reply \<open>{"response":"hi"}\<close> it returns the decoded object, not the string
  \<open>hi\<close>. The MCP forwarder stops at a \<open>result\<close> field that is not a string and
  returns that value encoded again: for \<open>{"result":null,"response":"hi"}\<close> it returns
  \<open>null\<close>, neither the string field \<open>response\<close> nor the entire body.
\<close>

theorem forwarder_unwrap_counterexample:
  \<open>api_forwardToAgent example_json_Unmarshal (HttpResponse 200 ''{"response":"hi"}'') =
     Inr (JObject [(''response'', JString ''hi'')]) \<and>
   mcp_forwardToAgent example_json_Unmarshal scalar_MarshalIndent
     (HttpResponse 200 ''{"result":null,"response":"hi"}'') = Inr ''null''\<close>
  by (simp add: api_forwardToAgent_def mcp_forwardToAgent_def unmarshal_map_def
      example_json_Unmarshal_def scalar_MarshalIndent_def)

text \<open>
  Claim C6, amended. For a worker response with a status below 400, the HTTP API
  forwarder returns the decoded JSON value whole, and the body as a string when it is
  not JSON. The MCP forwarder decodes the body as a JSON object; when the object has a
  \<open>result\<close> field it returns that field if it is a string and its indented JSON
  encoding otherwise; when it has none it returns the \<open>response\<close> field if that is a
  string, else the \<open>output\<close> field if that is a string, else the entire body. A body
  that is not a JSON object is returned as it is.
\<close>

theorem forwarders_response_handling:
  "code < 400 \<longrightarrow>
     api_forwardToAgent U (HttpResponse code body) =
       Inr (case U body of None \<Rightarrow> JString body | Some v \<Rightarrow> v) \<and>
     (unmarshal_map U body = None \<longrightarrow>
        mcp_forwardToAgent U M (HttpResponse code body) = Inr body) \<and>
     (\<forall>kvs. unmarshal_map U body = Some kvs \<longrightarrow>
        mcp_forwardToAgent U M (HttpResponse code body) =
          Inr (case map_of kvs ''result'' of
                 Some (JString s) \<Rightarrow> s
               | Some r \<Rightarrow> M r
               | None \<Rightarrow>
                   (case map_of kvs ''response'' of
                      Some (JString s) \<Rightarrow> s
                    | _ \<Rightarrow>
                        (case map_of kvs ''output'' of
                           Some (JString s) \<Rightarrow> s
                         | _ \<Rightarrow> body))))"
  by (auto simp: api_forwardToAgent_def mcp_forwardToAgent_def
      split: option.splits json.splits)

theorem forwarders_response_handling_witness:
  \<open>(200 :: nat) < 400 \<and>
   api_forwardToAgent example_json_Unmarshal (HttpResponse 200 ''plain text'') =
     Inr (JString ''plain text'') \<and>
   unmarshal_map example_json_Unmarshal ''plain text'' = None \<and>
   mcp_forwardToAgent example_json_Unmarshal scalar_MarshalIndent
     (HttpResponse 200 ''plain text'') = Inr ''plain text'' \<and>
   unmarshal_map example_json_Unmarshal ''{"output":"done","n":1}'' =
     Some [(''output'', JString ''done''), (''n'', JNumber ''1'')] \<and>
   mcp_forwardToAgent example_json_Unmarshal scalar_MarshalIndent
     (HttpResponse 200 ''{"output":"done","n":1}'') = Inr ''done''\<close>
proof -
  have a: "unmarshal_map example_json_Unmarshal ''plain text'' = None"
    by (simp add: unmarshal_map_def example_json_Unmarshal_def)
  have b: \<open>unmarshal_map example_json_Unmarshal ''{"output":"done","n":1}'' =
     Some [(''output'', JString ''done''), (''n'', JNumber ''1'')]\<close>
    by (simp add: unmarshal_map_def example_json_Unmarshal_def)
  have c: "example_json_Unmarshal ''plain text'' = None"
    by (simp add: example_json_Unmarshal_def)
  from forwarders_response_handling
      [of 200 example_json_Unmarshal "''plain text''" scalar_MarshalIndent] a c
  have 1: "api_forwardToAgent example_json_Unmarshal (HttpResponse 200 ''plain text'') =
     Inr (JString ''plain text'')"
    and 2: "mcp_forwardToAgent example_json_Unmarshal scalar_MarshalIndent
     (HttpResponse 200 ''plain text'') = Inr ''plain text''"
    by simp_all
  from forwarders_response_handling
      [of 200 example_json_Unmarshal \<open>''{"output":"done","n":1}''\<close> scalar_MarshalIndent] b
  have 3: \<open>mcp_forwardToAgent example_json_Unmarshal scalar_MarshalIndent
     (HttpResponse 200 ''{"output":"done","n":1}'') = Inr ''done''\<close>
    by simp
  from a b 1 2 3 show ?thesis by simp
qed

section \<open>The Agent reconciler\<close>

lemma Agent_Reconcile_success:
  assumes "Agent_Reconcile w = (None, Some a')"
  obtains agent h where "aw_get w = Inr agent" "a' = agent_update_status w agent h"
  using assms
  by (auto simp: Agent_Reconcile_def Let_def IgnoreNotFound_def
      split: sum.splits option.splits if_splits)

lemma agent_update_status_fields:
  "ag_Name (agent_update_status w a h) = ag_Name a"
  "ag_Namespace (agent_update_status w a h) = ag_Namespace a"
  "ag_Spec (agent_update_status w a h) = ag_Spec a"
  "as_Endpoint (ag_Status (agent_update_status w a h)) = AgentEndpoint a"
  "as_Ready (ag_Status (agent_update_status w a h)) = fst (checkDeploymentReady w a)"
  by (simp_all add: agent_update_status_def agent_setCondition_def Let_def split: prod.splits)

text \<open>
  Claim C1, amended. After a reconciliation of an Agent that returned no error, the
  stored status endpoint is \<open><name>.<namespace>.svc.cluster.local:8080\<close>, always
  non-empty, whether the Agent is ready or not; and the Agent is ready exactly when the
  deployment was fetched and its ready replicas are at least the wanted replicas (one
  when \<open>spec.replicas\<close> is absent) and more than zero.
\<close>

theorem agent_endpoint_after_reconcile:
  assumes "Agent_Reconcile w = (None, Some a')"
  shows "as_Endpoint (ag_Status a') = ag_Name a' @ ''.'' @ ag_Namespace a' @ ''.svc.cluster.local:8080'' \<and>
         as_Endpoint (ag_Status a') \<noteq> [] \<and>
         (as_Ready (ag_Status a') \<longleftrightarrow>
            (case aw_get_deployment w of
               Inl e \<Rightarrow> False
             | Inr ReadyReplicas \<Rightarrow>
                 (case spec_Replicas (ag_Spec a') of None \<Rightarrow> 1 | Some n \<Rightarrow> n) \<le>s ReadyReplicas \<and>
                 0 <s ReadyReplicas))"
proof -
  from assms obtain agent h where a: "a' = agent_update_status w agent h"
    by (rule Agent_Reconcile_success)
  show ?thesis
    unfolding a agent_update_status_fields
    by (simp add: AgentEndpoint_def checkDeploymentReady_def Let_def split: sum.splits)
qed

text \<open>
  Claim C1, as stated, fails: \<open>Reconcile\<close> sets the endpoint before it looks at the
  deployment, and never clears it. With no replica ready the reconciliation succeeds,
  the Agent is not ready and its endpoint is set.
\<close>

theorem agent_endpoint_counterexample:
  "fst (Agent_Reconcile (example_agent_world 0)) = None \<and>
   map_option (\<lambda>a. (as_Ready (ag_Status a), as_Endpoint (ag_Status a)))
     (snd (Agent_Reconcile (example_agent_world 0))) =
   Some (False, ''alpha.ns.svc.cluster.local:8080'')"
  by (simp add: Agent_Reconcile_def example_agent_world_def example_agent_def
      reconcileServiceAccount_def agent_update_status_def checkDeploymentReady_def
      agent_setCondition_def AgentEndpoint_def Let_def)

text \<open>The same Agent with one replica ready.\<close>

theorem agent_endpoint_after_reconcile_witness:
  "Agent_Reconcile (example_agent_world 1) =
     (None, Some (agent_update_status (example_agent_world 1) example_agent ''9f86d081884c7d65'')) \<and>
   as_Endpoint (ag_Status (agent_update_status (example_agent_world 1) example_agent ''9f86d081884c7d65'')) =
     ''alpha.ns.svc.cluster.local:8080'' \<and>
   as_Ready (ag_Status (agent_update_status (example_agent_world 1) example_agent ''9f86d081884c7d65''))"
proof -
  have r: "Agent_Reconcile (example_agent_world 1) =
     (None, Some (agent_update_status (example_agent_world 1) example_agent ''9f86d081884c7d65''))"
    by (simp add: Agent_Reconcile_def example_agent_world_def example_agent_def
        reconcileServiceAccount_def)
  from agent_endpoint_after_reconcile [OF r] r show ?thesis
    by (simp add: agent_update_status_fields example_agent_def example_agent_world_def
        word_sle_eq word_sless_alt)
qed

section \<open>The route compiler and the Route reconciler\<close>

lemmas sort_Slice_run =
  go_sort_Slice_def pdqsort_func.simps insertionSort_func_def insertion_outer.simps
  insertion_inner.simps data_Less_def data_Swap_def choosePivot_func_def median_func_def
  order2_func_def partialInsertionSort_func_def first_descent.simps scan_up.simps
  scan_down.simps partition_loop.simps partition_func_def

text \<open>The sort of the library on two rules, on three, and on the thirteen of the example.\<close>

lemma go_sort_Slice_two:
  "go_sort_Slice lt [x, y] = (if lt y x then [y, x] else [x, y])"
  by (simp add: sort_Slice_run)

lemma go_sort_Slice_three:
  assumes "Priority x = 10" "Priority y = 0" "Priority z = 30"
  shows "go_sort_Slice priority_less [x, y, z] = [z, x, y]"
  using assms by (simp add: sort_Slice_run priority_less_def word_sless_alt)

lemma go_sort_Slice_thirteen:
  assumes "Priority a = 10" "Priority b = 10" "Priority c = 10" "Priority d = 10"
    "Priority e = 10" "Priority f = 10" "Priority g = 10" "Priority h = 10"
    "Priority i = 10" "Priority j = 10" "Priority k = 10" "Priority l = 10"
    "Priority m = 20"
  shows "go_sort_Slice priority_less [a, b, c, d, e, f, g, h, i, j, k, l, m] =
           [m, g, c, d, e, f, a, h, i, j, k, l, b]"
  using assms by (simp add: sort_Slice_run priority_less_def word_sless_alt Let_def)

lemma compile_rule_Priority: "Priority (compile_rule route bm r) = route_priority r"
  by (simp add: compile_rule_def route_priority_def)

lemma compile_rule_Name: "Name (compile_rule route bm r) = rr_Name r"
  by (simp add: compile_rule_def)

lemma Rules_compileRouteConfig:
  "Rules (compileRouteConfig sort_Slice route backends) =
     sort_Slice priority_less
       (map (compile_rule route (backendMap_of backends)) (rs_Rules (ro_Spec route)))"
  by (simp add: compileRouteConfig_def compile_rules_def)

text \<open>
  \<open>resolveBackends\<close> goes through the references of the Route in order and skips a
  reference whose key it has seen. The key is the namespace as written, a slash and
  the name; when no namespace contains a slash, equal keys mean equal references, and
  the flag that \<open>resolveBackends\<close> returns says that every backend is ready.
\<close>

lemma key_inj:
  assumes "CHR ''/'' \<notin> set n1" "CHR ''/'' \<notin> set n2" "n1 @ ''/'' @ a1 = n2 @ ''/'' @ a2"
  shows "n1 = n2 \<and> a1 = a2"
proof -
  have "takeWhile (\<lambda>c. c \<noteq> CHR ''/'') (n1 @ ''/'' @ a1) = n1"
    using assms(1) by (subst takeWhile_append2) auto
  moreover have "takeWhile (\<lambda>c. c \<noteq> CHR ''/'') (n2 @ ''/'' @ a2) = n2"
    using assms(2) by (subst takeWhile_append2) auto
  ultimately have "n1 = n2" using assms(3) by simp
  with assms(3) show ?thesis by simp
qed

lemma fold_backends:
  "fold (\<lambda>rule st. fold (\<lambda>backend st. f (rb_AgentRef backend) st) (rr_Backends rule) st) rules st =
   fold f (concat (map (\<lambda>r. map rb_AgentRef (rr_Backends r)) rules)) st"
  by (induction rules arbitrary: st) (simp_all add: fold_map comp_def)

lemma resolveBackends_fold:
  "resolveBackends w route =
     (fst (fold (resolve_ref w route) (route_refs route) ([], True, [])),
      fst (snd (fold (resolve_ref w route) (route_refs route) ([], True, []))))"
  by (simp add: resolveBackends_def route_refs_def fold_backends Let_def
      split: option.splits)

lemma fold_resolve_ready:
  assumes "list_all (\<lambda>ref. CHR ''/'' \<notin> set (ref_Namespace ref)) (dn @ refs)"
    and "set seen = (\<lambda>ref. ref_Namespace ref @ ''/'' @ ref_Name ref) ` set dn"
    and "allReady = list_all (backend_ready w route) dn"
  shows "fst (snd (fold (resolve_ref w route) refs (backends, allReady, seen))) =
         list_all (backend_ready w route) (dn @ refs)"
  using assms
proof (induction refs arbitrary: dn seen allReady backends)
  case Nil
  then show ?case by simp
next
  case (Cons r refs)
  let ?key = "\<lambda>ref. ref_Namespace ref @ ''/'' @ ref_Name ref"
  from Cons.prems(1) have sl: "list_all (\<lambda>ref. CHR ''/'' \<notin> set (ref_Namespace ref)) ((dn @ [r]) @ refs)"
    by simp
  show ?case
  proof (cases "?key r \<in> set seen")
    case True
    with Cons.prems(2) obtain d where d: "d \<in> set dn" "?key d = ?key r" by auto
    from Cons.prems(1) d(1) have "CHR ''/'' \<notin> set (ref_Namespace d)" "CHR ''/'' \<notin> set (ref_Namespace r)"
      by (auto simp: list_all_iff)
    with d(2) have "ref_Namespace d = ref_Namespace r \<and> ref_Name d = ref_Name r"
      by (intro key_inj) auto
    then have "backend_ready w route d = backend_ready w route r"
      by (simp add: backend_ready_def)
    with d(1) Cons.prems(3) have a: "allReady = list_all (backend_ready w route) (dn @ [r])"
      by (auto simp: list_all_iff)
    from True Cons.prems(2) have s: "set seen = ?key ` set (dn @ [r])" by auto
    from True have "resolve_ref w route r (backends, allReady, seen) = (backends, allReady, seen)"
      by (simp add: resolve_ref_def)
    with Cons.IH [OF sl s a, of backends] show ?thesis by simp
  next
    case False
    have "\<exists>backends'. resolve_ref w route r (backends, allReady, seen) =
             (backends', allReady \<and> backend_ready w route r, ?key r # seen)"
    proof (cases "rw_agent w (if ref_Namespace r = [] then ro_Namespace route
                              else ref_Namespace r) (ref_Name r)")
      case None
      with False show ?thesis
        by (simp add: resolve_ref_def backend_ready_def Let_def)
    next
      case (Some a)
      with False show ?thesis
        by (cases a) (simp add: resolve_ref_def backend_ready_def Let_def)
    qed
    then obtain backends' where
      st: "resolve_ref w route r (backends, allReady, seen) =
             (backends', allReady \<and> backend_ready w route r, ?key r # seen)"
      by blast
    from Cons.prems(2) have s: "set (?key r # seen) = ?key ` set (dn @ [r])" by auto
    from Cons.prems(3)
    have a: "(allReady \<and> backend_ready w route r) = list_all (backend_ready w route) (dn @ [r])"
      by simp
    from Cons.IH [OF sl s a, of backends'] st show ?thesis by simp
  qed
qed

lemma resolveBackends_all_ready:
  assumes "list_all (\<lambda>ref. CHR ''/'' \<notin> set (ref_Namespace ref)) (route_refs route)"
  shows "snd (resolveBackends w route) = all_backends_ready w route"
  using fold_resolve_ready [of "[]" "route_refs route" "[]" True w route "[]"] assms
  by (simp add: resolveBackends_fold all_backends_ready_def)

text \<open>The route is compiled from its namespace and its rules; its status plays no part.\<close>

lemma compile_backend_status:
  "compile_backend (route\<lparr>ro_Status := s\<rparr>) = compile_backend route"
  by (simp add: fun_eq_iff compile_backend_def)

lemma compileRouteConfig_status:
  "compileRouteConfig sort_Slice (route\<lparr>ro_Status := s\<rparr>) backends =
     compileRouteConfig sort_Slice route backends"
proof -
  have "compile_rule (route\<lparr>ro_Status := s\<rparr>) = compile_rule route"
    by (simp add: fun_eq_iff compile_rule_def compile_backend_status)
  moreover have "compile_defaults (route\<lparr>ro_Status := s\<rparr>) = compile_defaults route"
    by (simp add: fun_eq_iff compile_defaults_def compile_backend_status)
  ultimately show ?thesis
    by (simp add: compileRouteConfig_def compile_rules_def)
qed

lemma reconcile_table:
  assumes "rw_get w = Inr route0" and "rw_configmap w = None"
  shows "res_table (Route_Reconcile sort_Slice w) =
           Some (compileRouteConfig sort_Slice route0 (fst (resolveBackends w route0)))"
  using assms
  by (cases "resolveBackends w route0")
     (simp add: Route_Reconcile_def route_write_status_def Let_def compileRouteConfig_status
        split: option.splits)

lemma Ready_of_set:
  "FindStatusCondition (rt_Conditions (ro_Status (route_setCondition r (ready_condition st g reason msg)))) ''Ready'' =
     Some (ready_condition st g reason msg)"
  using FindStatusCondition_Set [of "rt_Conditions (ro_Status r)" "ready_condition st g reason msg"]
  by (simp add: route_setCondition_def ready_condition_def)

lemma reconcile_ready_reason:
  assumes a: "rw_get w = Inr route0 \<and> rw_status_update w = None"
  shows "\<exists>r c. res_route (Route_Reconcile sort_Slice w) = Some r \<and>
         FindStatusCondition (rt_Conditions (ro_Status r)) ''Ready'' = Some c \<and>
         cond_Reason c =
           (if rw_configmap w \<noteq> None then ''ConfigMapUpdateFailed''
            else if snd (resolveBackends w route0) then ''AllBackendsReady''
            else ''BackendsNotReady'') \<and>
         cond_Reason c \<noteq> ''InvalidRegex'' \<and>
         rt_Ready (ro_Status r) = (rw_configmap w = None \<and> snd (resolveBackends w route0))"
proof (cases "rw_configmap w")
  case None
  with a show ?thesis
    by (cases "resolveBackends w route0")
       (simp add: Route_Reconcile_def route_write_status_def Let_def Ready_of_set,
        simp add: route_setCondition_def ready_condition_def)
next
  case (Some e)
  with a show ?thesis
    by (cases "resolveBackends w route0")
       (simp add: Route_Reconcile_def route_write_status_def Let_def,
        simp add: route_setCondition_def ready_condition_def FindStatusCondition_Set
          [of _ "ready_condition ConditionFalse g ''ConfigMapUpdateFailed'' m" for g m, simplified ready_condition_def, simplified])
qed

text \<open>
  Claim C4, amended. The compiled table lists the compiled rules of the Route, each
  once and with the priority the Route gives it (0 when it gives none), sorted by
  priority in descending order. When no two rules of the Route have the same priority,
  this fixes the table: it is the rules of the Route in descending order of priority.
  The order of two rules with equal priority is the one \<open>sort.Slice\<close> happens to
  leave. All this rests on what \<open>sort.Slice\<close> promises for the call.
\<close>

theorem compiled_rules_sorted_by_priority:
  assumes "sorts_by sort_Slice priority_less (compile_rules route backends)"
  shows "sorted_wrt (\<lambda>a b. sint (Priority b) \<le> sint (Priority a))
           (Rules (compileRouteConfig sort_Slice route backends)) \<and>
         mset (Rules (compileRouteConfig sort_Slice route backends)) =
           mset (map (compile_rule route (backendMap_of backends)) (rs_Rules (ro_Spec route))) \<and>
         mset (map (\<lambda>c. (Name c, Priority c))
                 (Rules (compileRouteConfig sort_Slice route backends))) =
           mset (map (\<lambda>r. (rr_Name r, route_priority r)) (rs_Rules (ro_Spec route))) \<and>
         (distinct (map route_priority (rs_Rules (ro_Spec route))) \<longrightarrow>
            Rules (compileRouteConfig sort_Slice route backends) =
              map (compile_rule route (backendMap_of backends))
                (by_priority_stable (rs_Rules (ro_Spec route))))"
proof -
  let ?g = "compile_rule route (backendMap_of backends)"
  let ?rules = "rs_Rules (ro_Spec route)"
  let ?out = "Rules (compileRouteConfig sort_Slice route backends)"
  let ?key = "\<lambda>c. - sint (Priority c)"
  have e: "(\<lambda>a b. \<not> priority_less b a) = (\<lambda>a b. sint (Priority b) \<le> sint (Priority a))"
    by (auto simp: priority_less_def word_sless_alt fun_eq_iff)
  from assms have m: "mset ?out = mset (map ?g ?rules)"
    by (simp add: sorts_by_def compileRouteConfig_def compile_rules_def)
  from assms e have s: "sorted_wrt (\<lambda>a b. sint (Priority b) \<le> sint (Priority a)) ?out"
    by (simp add: sorts_by_def compileRouteConfig_def compile_rules_def)
  have "mset (map (\<lambda>c. (Name c, Priority c)) ?out) =
      mset (map (\<lambda>c. (Name c, Priority c)) (map ?g ?rules))"
    using m by (metis mset_map)
  then have p: "mset (map (\<lambda>c. (Name c, Priority c)) ?out) =
      mset (map (\<lambda>r. (rr_Name r, route_priority r)) ?rules)"
    by (simp add: compile_rule_Priority compile_rule_Name comp_def)
  have u: "?out = map ?g (by_priority_stable ?rules)"
    if d: "distinct (map route_priority ?rules)"
  proof -
    from d have i: "inj_on route_priority (set ?rules)" by (simp add: distinct_map)
    have j: "inj_on ?key (set (map ?g ?rules))"
    proof (rule inj_onI)
      fix x y
      assume "x \<in> set (map ?g ?rules)" "y \<in> set (map ?g ?rules)" and k: "?key x = ?key y"
      then obtain r r' where r: "r \<in> set ?rules" "x = ?g r" "r' \<in> set ?rules" "y = ?g r'"
        by auto
      with k have "sint (route_priority r) = sint (route_priority r')"
        by (simp add: compile_rule_Priority)
      then have "route_priority r = route_priority r'"
        by (rule signed_word_eqI)
      with i r show "x = y" by (auto dest: inj_onD)
    qed
    have so: "sorted (map ?key ?out)"
      using s by (simp add: sorted_map sorted_wrt_iff_nth_less)
    from m j so have o: "sort_key ?key (map ?g ?rules) = ?out"
      by (intro sort_key_inj_key_eq) simp_all
    have "sorted (map ?key (map ?g (sort_key (?key \<circ> ?g) ?rules)))"
      using sorted_sort_key [of "?key \<circ> ?g" ?rules] by (simp add: comp_def)
    with j have "sort_key ?key (map ?g ?rules) = map ?g (sort_key (?key \<circ> ?g) ?rules)"
      by (intro sort_key_inj_key_eq) simp_all
    moreover have "?key \<circ> ?g = (\<lambda>r. - sint (route_priority r))"
      by (simp add: fun_eq_iff compile_rule_Priority)
    ultimately show ?thesis using o by (simp add: by_priority_stable_def)
  qed
  from s m p u show ?thesis by blast
qed

text \<open>
  The three rules of the example, with the priorities 10, none and 30, come out as
  \<open>high\<close>, \<open>mid\<close>, \<open>low\<close>, the last with the priority 0.
\<close>

theorem compiled_rules_sorted_by_priority_witness:
  "sorts_by go_sort_Slice priority_less
     (compile_rules (route_with_rules example_rules3)
        (fst (resolveBackends (world_with (route_with_rules example_rules3))
                (route_with_rules example_rules3)))) \<and>
   distinct (map route_priority (rs_Rules (ro_Spec (route_with_rules example_rules3)))) \<and>
   map (\<lambda>c. (Name c, Priority c))
     (Rules (compileRouteConfig go_sort_Slice (route_with_rules example_rules3)
        (fst (resolveBackends (world_with (route_with_rules example_rules3))
                (route_with_rules example_rules3))))) =
     [(''high'', 30), (''mid'', 10), (''low'', 0)]"
proof -
  let ?r = "route_with_rules example_rules3"
  let ?b = "fst (resolveBackends (world_with ?r) ?r)"
  let ?g = "compile_rule ?r (backendMap_of ?b)"
  have r: "rs_Rules (ro_Spec ?r) = example_rules3"
    by (simp add: route_with_rules_def)
  have c: "compile_rules ?r ?b =
      [?g (example_route_rule ''mid'' (Some 10) ''docs'' ''alpha''),
       ?g (example_route_rule ''low'' None ''docs'' ''alpha''),
       ?g (example_route_rule ''high'' (Some 30) ''docs'' ''alpha'')]"
    unfolding compile_rules_def r by (simp add: example_rules3_def)
  have g: "go_sort_Slice priority_less (compile_rules ?r ?b) =
      [?g (example_route_rule ''high'' (Some 30) ''docs'' ''alpha''),
       ?g (example_route_rule ''mid'' (Some 10) ''docs'' ''alpha''),
       ?g (example_route_rule ''low'' None ''docs'' ''alpha'')]"
    unfolding c
    by (rule go_sort_Slice_three)
       (simp_all add: compile_rule_Priority route_priority_def example_route_rule_def)
  have s: "sorts_by go_sort_Slice priority_less (compile_rules ?r ?b)"
    unfolding sorts_by_def g unfolding c
    by (simp add: priority_less_def word_sless_alt compile_rule_Priority route_priority_def
        example_route_rule_def)
  have d: "distinct (map route_priority (rs_Rules (ro_Spec ?r)))"
    unfolding r by (simp add: example_rules3_def route_priority_def example_route_rule_def)
  have o: "by_priority_stable example_rules3 =
      [example_route_rule ''high'' (Some 30) ''docs'' ''alpha'',
       example_route_rule ''mid'' (Some 10) ''docs'' ''alpha'',
       example_route_rule ''low'' None ''docs'' ''alpha'']"
    by (simp add: by_priority_stable_def example_rules3_def route_priority_def
        example_route_rule_def)
  from compiled_rules_sorted_by_priority [OF s] d
  have "Rules (compileRouteConfig go_sort_Slice ?r ?b) = map ?g (by_priority_stable example_rules3)"
    unfolding r by blast
  then have "map (\<lambda>c. (Name c, Priority c)) (Rules (compileRouteConfig go_sort_Slice ?r ?b)) =
      [(''high'', 30), (''mid'', 10), (''low'', 0)]"
    unfolding o
    by (simp add: compile_rule_Priority compile_rule_Name route_priority_def
        example_route_rule_def)
  with s d show ?thesis by blast
qed

text \<open>
  Claim C4, as stated, fails on its second half: the compiler sorts with \<open>sort.Slice\<close>,
  not with \<open>sort.SliceStable\<close>. A slice of more than 12 elements is not sorted by
  insertion but partitioned, and the partition moves elements past their equals. The
  Route of the example has twelve rules \<open>a\<close> to \<open>l\<close> of priority 10 and then the rule
  \<open>m\<close> of priority 20. The pivot is the rule \<open>g\<close>, which changes places with \<open>a\<close>;
  \<open>m\<close>, which must come before the pivot, changes places with \<open>b\<close>; then \<open>m\<close> and
  the pivot change places. The table has the rules of priority 10 in the order
  \<open>g c d e f a h i j k l b\<close>, not in the order of the Route.
\<close>

theorem tie_order_counterexample:
  "map (\<lambda>r. (rr_Name r, route_priority r)) (rs_Rules (ro_Spec (route_with_rules example_rules13))) =
     [(''a'', 10), (''b'', 10), (''c'', 10), (''d'', 10), (''e'', 10), (''f'', 10), (''g'', 10),
      (''h'', 10), (''i'', 10), (''j'', 10), (''k'', 10), (''l'', 10), (''m'', 20)] \<and>
   map_option (\<lambda>t. map (\<lambda>c. (Name c, Priority c)) (Rules t))
     (res_table (Route_Reconcile go_sort_Slice (world_with (route_with_rules example_rules13)))) =
     Some [(''m'', 20), (''g'', 10), (''c'', 10), (''d'', 10), (''e'', 10), (''f'', 10),
           (''a'', 10), (''h'', 10), (''i'', 10), (''j'', 10), (''k'', 10), (''l'', 10),
           (''b'', 10)] \<and>
   map rr_Name (by_priority_stable (rs_Rules (ro_Spec (route_with_rules example_rules13)))) =
     [''m'', ''a'', ''b'', ''c'', ''d'', ''e'', ''f'', ''g'', ''h'', ''i'', ''j'', ''k'', ''l'']"
proof -
  let ?r = "route_with_rules example_rules13"
  let ?w = "world_with ?r"
  have r: "rs_Rules (ro_Spec ?r) = example_rules13"
    by (simp add: route_with_rules_def)
  have n: "map (\<lambda>r. (rr_Name r, route_priority r)) (rs_Rules (ro_Spec ?r)) =
     [(''a'', 10), (''b'', 10), (''c'', 10), (''d'', 10), (''e'', 10), (''f'', 10), (''g'', 10),
      (''h'', 10), (''i'', 10), (''j'', 10), (''k'', 10), (''l'', 10), (''m'', 20)]"
    unfolding r by (simp add: example_rules13_def route_priority_def example_route_rule_def)
  have t: "res_table (Route_Reconcile go_sort_Slice ?w) =
      Some (compileRouteConfig go_sort_Slice ?r (fst (resolveBackends ?w ?r)))"
    by (rule reconcile_table) (simp_all add: world_with_def example_route_world_def)
  let ?g = "compile_rule ?r (backendMap_of (fst (resolveBackends ?w ?r)))"
  let ?x = "\<lambda>n. ?g (example_route_rule n (Some 10) ''docs'' ''alpha'')"
  have "Rules (compileRouteConfig go_sort_Slice ?r (fst (resolveBackends ?w ?r))) =
      go_sort_Slice priority_less
        [?x ''a'', ?x ''b'', ?x ''c'', ?x ''d'', ?x ''e'', ?x ''f'', ?x ''g'', ?x ''h'',
         ?x ''i'', ?x ''j'', ?x ''k'', ?x ''l'',
         ?g (example_route_rule ''m'' (Some 20) ''docs'' ''alpha'')]"
    unfolding Rules_compileRouteConfig r by (simp add: example_rules13_def)
  also have "\<dots> =
      [?g (example_route_rule ''m'' (Some 20) ''docs'' ''alpha''),
       ?x ''g'', ?x ''c'', ?x ''d'', ?x ''e'', ?x ''f'', ?x ''a'', ?x ''h'',
       ?x ''i'', ?x ''j'', ?x ''k'', ?x ''l'', ?x ''b'']"
    by (rule go_sort_Slice_thirteen)
       (simp_all add: compile_rule_Priority route_priority_def example_route_rule_def)
  finally have "map (\<lambda>c. (Name c, Priority c))
      (Rules (compileRouteConfig go_sort_Slice ?r (fst (resolveBackends ?w ?r)))) =
     [(''m'', 20), (''g'', 10), (''c'', 10), (''d'', 10), (''e'', 10), (''f'', 10),
      (''a'', 10), (''h'', 10), (''i'', 10), (''j'', 10), (''k'', 10), (''l'', 10),
      (''b'', 10)]"
    by (simp add: compile_rule_Priority compile_rule_Name route_priority_def
        example_route_rule_def)
  with t have o: "map_option (\<lambda>t. map (\<lambda>c. (Name c, Priority c)) (Rules t))
     (res_table (Route_Reconcile go_sort_Slice ?w)) =
     Some [(''m'', 20), (''g'', 10), (''c'', 10), (''d'', 10), (''e'', 10), (''f'', 10),
           (''a'', 10), (''h'', 10), (''i'', 10), (''j'', 10), (''k'', 10), (''l'', 10),
           (''b'', 10)]"
    by simp
  have s: "map rr_Name (by_priority_stable (rs_Rules (ro_Spec ?r))) =
     [''m'', ''a'', ''b'', ''c'', ''d'', ''e'', ''f'', ''g'', ''h'', ''i'', ''j'', ''k'', ''l'']"
    unfolding r
    by (simp add: by_priority_stable_def example_rules13_def route_priority_def
        example_route_rule_def)
  from n o s show ?thesis by blast
qed

text \<open>
  Claim C3, amended. The route compiler does not compile \<open>match.intentRegex\<close>, and
  it cannot fail. Take a reconciliation that fetches the Route and writes its status,
  of a Route none of whose references has a slash in its namespace. The reason of the
  Ready condition it writes is \<open>ConfigMapUpdateFailed\<close> when the write of the routes
  ConfigMap failed, else \<open>AllBackendsReady\<close> when every Agent the Route refers to can
  be fetched and is ready, else \<open>BackendsNotReady\<close>; it is never \<open>InvalidRegex\<close>.
  The Route is ready exactly when the write succeeded and every such Agent is ready.
  And when the write succeeded, the table written holds, for every rule of the Route,
  a rule of that name with the pattern of the Route's rule, valid or not, unchanged;
  this needs that the call of \<open>sort.Slice\<close> keeps the rules it is given.
\<close>

theorem route_ready_reason_ignores_regex:
  "rw_get w = Inr route0 \<and> rw_status_update w = None \<and>
   list_all (\<lambda>ref. CHR ''/'' \<notin> set (ref_Namespace ref)) (route_refs route0) \<and>
   mset (sort_Slice priority_less (compile_rules route0 (fst (resolveBackends w route0)))) =
     mset (compile_rules route0 (fst (resolveBackends w route0))) \<longrightarrow>
     (\<exists>r c. res_route (Route_Reconcile sort_Slice w) = Some r \<and>
        FindStatusCondition (rt_Conditions (ro_Status r)) ''Ready'' = Some c \<and>
        cond_Reason c =
          (if rw_configmap w \<noteq> None then ''ConfigMapUpdateFailed''
           else if all_backends_ready w route0 then ''AllBackendsReady''
           else ''BackendsNotReady'') \<and>
        cond_Reason c \<noteq> ''InvalidRegex'' \<and>
        rt_Ready (ro_Status r) = (rw_configmap w = None \<and> all_backends_ready w route0)) \<and>
     (rw_configmap w = None \<longrightarrow>
        (\<exists>t. res_table (Route_Reconcile sort_Slice w) = Some t \<and>
           mset (map (\<lambda>c. (Name c, IntentRegex (Match c))) (Rules t)) =
             mset (map (\<lambda>r. (rr_Name r, rm_IntentRegex (rr_Match r)))
                     (rs_Rules (ro_Spec route0)))))"
proof (intro impI conjI)
  assume a: "rw_get w = Inr route0 \<and> rw_status_update w = None \<and>
   list_all (\<lambda>ref. CHR ''/'' \<notin> set (ref_Namespace ref)) (route_refs route0) \<and>
   mset (sort_Slice priority_less (compile_rules route0 (fst (resolveBackends w route0)))) =
     mset (compile_rules route0 (fst (resolveBackends w route0)))"
  then have e: "snd (resolveBackends w route0) = all_backends_ready w route0"
    by (intro resolveBackends_all_ready) simp
  from a have a': "rw_get w = Inr route0 \<and> rw_status_update w = None" by simp
  from reconcile_ready_reason [OF a', of sort_Slice]
  show "\<exists>r c. res_route (Route_Reconcile sort_Slice w) = Some r \<and>
        FindStatusCondition (rt_Conditions (ro_Status r)) ''Ready'' = Some c \<and>
        cond_Reason c =
          (if rw_configmap w \<noteq> None then ''ConfigMapUpdateFailed''
           else if all_backends_ready w route0 then ''AllBackendsReady''
           else ''BackendsNotReady'') \<and>
        cond_Reason c \<noteq> ''InvalidRegex'' \<and>
        rt_Ready (ro_Status r) = (rw_configmap w = None \<and> all_backends_ready w route0)"
    unfolding e .
  assume c: "rw_configmap w = None"
  let ?t = "compileRouteConfig sort_Slice route0 (fst (resolveBackends w route0))"
  from a c have t: "res_table (Route_Reconcile sort_Slice w) = Some ?t"
    by (intro reconcile_table) simp_all
  from a have "mset (Rules ?t) = mset (compile_rules route0 (fst (resolveBackends w route0)))"
    by (simp add: compileRouteConfig_def)
  then have "mset (map (\<lambda>c. (Name c, IntentRegex (Match c))) (Rules ?t)) =
      mset (map (\<lambda>c. (Name c, IntentRegex (Match c)))
              (compile_rules route0 (fst (resolveBackends w route0))))"
    by (metis mset_map)
  then have "mset (map (\<lambda>c. (Name c, IntentRegex (Match c))) (Rules ?t)) =
      mset (map (\<lambda>r. (rr_Name r, rm_IntentRegex (rr_Match r))) (rs_Rules (ro_Spec route0)))"
    by (simp add: compile_rules_def compile_rule_def comp_def)
  with t show "\<exists>t. res_table (Route_Reconcile sort_Slice w) = Some t \<and>
           mset (map (\<lambda>c. (Name c, IntentRegex (Match c))) (Rules t)) =
             mset (map (\<lambda>r. (rr_Name r, rm_IntentRegex (rr_Match r)))
                     (rs_Rules (ro_Spec route0)))"
    by blast
qed

lemma example_backends:
  "resolveBackends (example_route_world re) (example_route re) =
     ([\<lparr>bs_AgentRef = \<lparr>ref_Name = ''alpha'', ref_Namespace = ''ns''\<rparr>, bs_Ready = True,
        bs_Endpoint = ''alpha.ns.svc.cluster.local:8080''\<rparr>,
       \<lparr>bs_AgentRef = \<lparr>ref_Name = ''beta'', ref_Namespace = ''ns''\<rparr>, bs_Ready = True,
        bs_Endpoint = ''beta.ns.svc.cluster.local:8080''\<rparr>], True)"
  by (simp add: resolveBackends_def example_route_world_def example_route_def
      example_route_rule_def resolve_ref_def Let_def)

lemma example_reconcile:
  "Route_Reconcile go_sort_Slice (example_route_world re) =
     \<lparr>res_err = None, res_requeue = False,
      res_route = Some (route_setCondition
        ((example_route re)\<lparr>ro_Status := (ro_Status (example_route re))
           \<lparr>rt_Backends := fst (resolveBackends (example_route_world re) (example_route re)),
            rt_ActiveRules := 2, rt_CompiledConfigMap := ''mcp-fabric-gateway-routes'',
            rt_ObservedGeneration := 1, rt_Ready := True\<rparr>\<rparr>)
        (ready_condition ConditionTrue 1 ''AllBackendsReady'' ''All backend agents are ready'')),
      res_table = Some (compileRouteConfig go_sort_Slice
        ((example_route re)\<lparr>ro_Status := (ro_Status (example_route re))
           \<lparr>rt_Backends := fst (resolveBackends (example_route_world re) (example_route re))\<rparr>\<rparr>)
        (fst (resolveBackends (example_route_world re) (example_route re))))\<rparr>"
  unfolding Route_Reconcile_def
  apply (simp only: example_route_world_def route_world.simps sum.case)
  apply (fold example_route_world_def)
  apply (simp only: example_backends Let_def prod.case fst_conv)
  apply (simp add: example_route_world_def route_write_status_def example_route_def example_route_rule_def)
  done

text \<open>
  Claim C3, as stated, fails: nothing in the operator compiles a regular expression. The
  first rule of the example Route has the pattern \<open>(\<close>, which does not compile. The
  reconciliation succeeds, marks the Route ready with the reason \<open>AllBackendsReady\<close>
  and writes the pattern into the table as it is; the gateway's load of that table then
  fails as a whole, the rule with the valid pattern included.
\<close>

theorem invalid_regex_counterexample:
  "literal_Compile ''('' = None \<and>
   res_err (Route_Reconcile go_sort_Slice (example_route_world ''('')) = None \<and>
   map_option (\<lambda>r. (rt_Ready (ro_Status r), map cond_Reason (rt_Conditions (ro_Status r))))
     (res_route (Route_Reconcile go_sort_Slice (example_route_world ''(''))) =
     Some (True, [''AllBackendsReady'']) \<and>
   map_option (\<lambda>t. map (\<lambda>r. IntentRegex (Match r)) (Rules t))
     (res_table (Route_Reconcile go_sort_Slice (example_route_world ''(''))) =
     Some [''('', ''docs''] \<and>
   fst (LoadFromJSON (\<lambda>data. res_table (Route_Reconcile go_sort_Slice (example_route_world ''('')))
          literal_Compile (NewTable :: string Table) ''routes.json'') =
     Some (RegexpCompileError ''('')"
proof -
  have t: "map (\<lambda>r. IntentRegex (Match r))
      (Rules (compileRouteConfig go_sort_Slice
        ((example_route ''('')\<lparr>ro_Status := (ro_Status (example_route ''(''))
           \<lparr>rt_Backends := fst (resolveBackends (example_route_world ''('') (example_route ''(''))\<rparr>\<rparr>)
        (fst (resolveBackends (example_route_world ''('') (example_route ''(''))))) = [''('', ''docs'']"
    unfolding example_backends
    by (simp add: compileRouteConfig_def compile_rules_def compile_rule_def
      example_route_def example_route_rule_def go_sort_Slice_two priority_less_def
      word_sless_alt)
  have l: "fst (LoadFromJSON (\<lambda>data. Some cfg) literal_Compile (NewTable :: string Table) ''routes.json'') =
      Some (RegexpCompileError ''('')"
    if "map (\<lambda>r. IntentRegex (Match r)) (Rules cfg) = [''('', ''docs'']" for cfg
  proof -
    from that obtain r1 r2 where "Rules cfg = [r1, r2]" "IntentRegex (Match r1) = ''(''"
      by (auto simp: map_eq_Cons_conv)
    then show ?thesis
      by (simp add: LoadFromJSON_def literal_Compile_def)
  qed
  show ?thesis
    unfolding example_reconcile
    using t l [OF t]
    by (simp add: literal_Compile_def route_setCondition_def ready_condition_def
        example_route_def)
qed

text \<open>
  The example Route with the pattern \<open>(\<close>, in the cluster where both Agents are ready
  and in the one where \<open>beta\<close> is not: the reason is \<open>AllBackendsReady\<close> in the first
  and \<open>BackendsNotReady\<close> in the second, where the Route is not ready; the table
  written has the pattern \<open>(\<close> in both.
\<close>

theorem route_ready_reason_ignores_regex_witness:
  "rw_get (example_route_world ''('') = Inr (example_route ''('') \<and>
   rw_status_update (example_route_world ''('') = None \<and>
   rw_configmap (example_route_world ''('') = None \<and>
   list_all (\<lambda>ref. CHR ''/'' \<notin> set (ref_Namespace ref)) (route_refs (example_route ''('')) \<and>
   mset (go_sort_Slice priority_less (compile_rules (example_route ''('')
           (fst (resolveBackends (example_route_world ''('') (example_route ''(''))))) =
     mset (compile_rules (example_route ''('')
           (fst (resolveBackends (example_route_world ''('') (example_route ''('')))) \<and>
   all_backends_ready (example_route_world ''('') (example_route ''('') \<and>
   (\<exists>r c. res_route (Route_Reconcile go_sort_Slice (example_route_world ''('')) = Some r \<and>
      FindStatusCondition (rt_Conditions (ro_Status r)) ''Ready'' = Some c \<and>
      cond_Reason c = ''AllBackendsReady'' \<and> rt_Ready (ro_Status r)) \<and>
   rw_get (example_route_world_unready ''('') = Inr (example_route ''('') \<and>
   rw_status_update (example_route_world_unready ''('') = None \<and>
   rw_configmap (example_route_world_unready ''('') = None \<and>
   mset (go_sort_Slice priority_less (compile_rules (example_route ''('')
           (fst (resolveBackends (example_route_world_unready ''('') (example_route ''(''))))) =
     mset (compile_rules (example_route ''('')
           (fst (resolveBackends (example_route_world_unready ''('') (example_route ''('')))) \<and>
   \<not> all_backends_ready (example_route_world_unready ''('') (example_route ''('') \<and>
   (\<exists>r c. res_route (Route_Reconcile go_sort_Slice (example_route_world_unready ''('')) = Some r \<and>
      FindStatusCondition (rt_Conditions (ro_Status r)) ''Ready'' = Some c \<and>
      cond_Reason c = ''BackendsNotReady'' \<and> \<not> rt_Ready (ro_Status r)) \<and>
   (\<exists>t. res_table (Route_Reconcile go_sort_Slice (example_route_world_unready ''('')) = Some t \<and>
      mset (map (\<lambda>c. (Name c, IntentRegex (Match c))) (Rules t)) =
        {#(''first'', ''(''), (''second'', ''docs'')#})"
proof -
  let ?r = "example_route ''(''"
  let ?w = "example_route_world ''(''"
  let ?u = "example_route_world_unready ''(''"
  have a: "rw_get ?w = Inr ?r \<and> rw_status_update ?w = None \<and> rw_configmap ?w = None"
    by (simp add: example_route_world_def)
  have b: "rw_get ?u = Inr ?r \<and> rw_status_update ?u = None \<and> rw_configmap ?u = None"
    by (simp add: example_route_world_unready_def)
  have s: "list_all (\<lambda>ref. CHR ''/'' \<notin> set (ref_Namespace ref)) (route_refs ?r)"
    by (simp add: route_refs_def example_route_def example_route_rule_def)
  have m: "mset (go_sort_Slice priority_less (compile_rules ?r bs)) = mset (compile_rules ?r bs)"
    for bs
    by (simp add: compile_rules_def example_route_def go_sort_Slice_two)
  have y: "all_backends_ready ?w ?r"
    by (simp add: all_backends_ready_def route_refs_def backend_ready_def example_route_def
        example_route_rule_def example_route_world_def)
  have n: "\<not> all_backends_ready ?u ?r"
    by (simp add: all_backends_ready_def route_refs_def backend_ready_def example_route_def
        example_route_rule_def example_route_world_unready_def)
  have p: "map (\<lambda>r. (rr_Name r, rm_IntentRegex (rr_Match r))) (rs_Rules (ro_Spec ?r)) =
      [(''first'', ''(''), (''second'', ''docs'')]"
    by (simp add: example_route_def example_route_rule_def)
  from route_ready_reason_ignores_regex [of ?w ?r go_sort_Slice] a s m y
  have 1: "\<exists>r c. res_route (Route_Reconcile go_sort_Slice ?w) = Some r \<and>
      FindStatusCondition (rt_Conditions (ro_Status r)) ''Ready'' = Some c \<and>
      cond_Reason c = ''AllBackendsReady'' \<and> rt_Ready (ro_Status r)"
    by auto
  from route_ready_reason_ignores_regex [of ?u ?r go_sort_Slice] b s m n
  have 2: "\<exists>r c. res_route (Route_Reconcile go_sort_Slice ?u) = Some r \<and>
      FindStatusCondition (rt_Conditions (ro_Status r)) ''Ready'' = Some c \<and>
      cond_Reason c = ''BackendsNotReady'' \<and> \<not> rt_Ready (ro_Status r)"
    and 3: "\<exists>t. res_table (Route_Reconcile go_sort_Slice ?u) = Some t \<and>
      mset (map (\<lambda>c. (Name c, IntentRegex (Match c))) (Rules t)) =
        {#(''first'', ''(''), (''second'', ''docs'')#}"
    unfolding p by auto
  from a b s m y n 1 2 3 show ?thesis by blast
qed

section \<open>The Task reconciler\<close>

text \<open>
  \<open>strings_Index\<close> finds the marker exactly in the lines that contain it, and what
  follows the index and the marker is the rest of the line.
\<close>

lemma strings_Index_ge: "- 1 \<le> strings_Index s sub"
  by (induction s) (auto simp: Let_def)

lemma strings_Index_found:
  "strings_Index s sub \<noteq> - 1 \<Longrightarrow>
     s = take (nat (strings_Index s sub)) s @ sub @ drop (nat (strings_Index s sub) + length sub) s"
proof (induction s)
  case Nil
  then show ?case by (simp split: if_splits)
next
  case (Cons c cs)
  show ?case
  proof (cases "take (length sub) (c # cs) = sub")
    case True
    then have "strings_Index (c # cs) sub = 0" by simp
    moreover from True have "c # cs = sub @ drop (length sub) (c # cs)"
      by (metis append_take_drop_id)
    ultimately show ?thesis by simp
  next
    case False
    with Cons.prems have n: "strings_Index cs sub \<noteq> - 1"
      by (auto simp: Let_def split: if_splits)
    with strings_Index_ge [of cs sub] have p: "0 \<le> strings_Index cs sub" by arith
    from False n have e: "strings_Index (c # cs) sub = strings_Index cs sub + 1"
      by (simp add: Let_def)
    from p have "nat (strings_Index cs sub + 1) = Suc (nat (strings_Index cs sub))" by simp
    with Cons.IH [OF n] e show ?thesis by simp
  qed
qed

lemma strings_Index_prefix: "strings_Index (sub @ post) sub = 0"
proof (cases "sub @ post")
  case Nil
  then show ?thesis by simp
next
  case (Cons a list)
  have "take (length sub) (a # list) = sub"
    unfolding Cons [symmetric] by simp
  then show ?thesis unfolding Cons by simp
qed

lemma strings_Index_contains:
  "strings_Index s sub \<noteq> - 1 \<longleftrightarrow> (\<exists>pre post. s = pre @ sub @ post)"
proof
  assume "strings_Index s sub \<noteq> - 1"
  from strings_Index_found [OF this] show "\<exists>pre post. s = pre @ sub @ post" by blast
next
  assume "\<exists>pre post. s = pre @ sub @ post"
  then obtain pre post where "s = pre @ sub @ post" by blast
  then show "strings_Index s sub \<noteq> - 1"
  proof (induction pre arbitrary: s)
    case Nil
    then show ?case by (simp add: strings_Index_prefix)
  next
    case (Cons a pre)
    then have s: "s = a # (pre @ sub @ post)" by simp
    from Cons.IH [of "pre @ sub @ post"] have n: "strings_Index (pre @ sub @ post) sub \<noteq> - 1"
      by simp
    with strings_Index_ge [of "pre @ sub @ post" sub]
    have "0 \<le> strings_Index (pre @ sub @ post) sub" by arith
    with n show ?case unfolding s by (simp add: Let_def)
  qed
qed













text \<open>
  Claim C2 against the code. \<open>Reconcile\<close> looks at \<open>spec.paused\<close> before it looks
  for a Completed or Failed phase, so the guard that makes these phases final is not
  reached for a paused Task: a Completed Task (and a Failed one) with
  \<open>spec.paused = true\<close> is moved to Paused, and once \<open>spec.paused\<close> is false
  again the next reconciliation moves it on to Running.
\<close>

theorem completed_task_moves_to_Paused:
  "Task_Reconcile (task_world_of (example_task TaskPhaseCompleted True) []) =
     finish None (task_setCondition (set_phase (example_task TaskPhaseCompleted True) TaskPhasePaused)
                    ConditionFalse ''Paused'' ''Task is paused'') \<and>
   tk_Phase (to_Status (task_setCondition
       (set_phase (example_task TaskPhaseCompleted True) TaskPhasePaused)
       ConditionFalse ''Paused'' ''Task is paused'')) = TaskPhasePaused \<and>
   map_option (\<lambda>t. tk_Phase (to_Status t))
     (tr_task (Task_Reconcile (task_world_of (example_task TaskPhaseFailed True) []))) =
     Some TaskPhasePaused \<and>
   map_option (\<lambda>t. tk_Phase (to_Status t))
     (tr_task (Task_Reconcile
        (task_world_of
           ((task_setCondition (set_phase (example_task TaskPhaseCompleted True) TaskPhasePaused)
               ConditionFalse ''Paused'' ''Task is paused'')
            \<lparr>to_Spec := \<lparr>ts_Paused = False, ts_Limits = None, ts_GitURL = None\<rparr>\<rparr>) []))) =
     Some TaskPhaseRunning"
  by (simp add: Task_Reconcile_def task_world_of_def example_task_def taskFinalizer_def
      status_update_then_def finish_def requeue_def task_setCondition_def set_phase_def)

end
